theory Spec2Isabelle
  imports Complex_Main "HOL-Library.Word"
begin

section \<open>Values of the host language\<close>

text \<open>
  The client is the class \<open>ElasticClient\<close> of \<open>src/utils/client.ts\<close>. It handles
  three kinds of run-time values: strings, the values that \<open>JSON.parse\<close> returns, and the
  values that a \<open>catch\<close> clause receives. Strings are byte strings (the UTF-8 form of the
  JavaScript string). A JSON object is the list of its own properties in iteration order;
  its keys are distinct. Numbers are the finite ones; the client only ever asks of a
  number whether it is zero.
\<close>

datatype json =
    JNull
  | JBool bool
  | JNum real
  | JStr string
  | JArr "json list"
  | JObj "(string \<times> json) list"

text \<open>What \<open>if (v)\<close>, \<open>v && ...\<close> and \<open>v || ...\<close> test: every value is truthy but
  \<open>null\<close>, \<open>false\<close>, \<open>0\<close> and the empty string (and \<open>undefined\<close>, which is
  \<open>None\<close> below).\<close>

fun truthy :: "json \<Rightarrow> bool" where
  "truthy JNull = False"
| "truthy (JBool b) = b"
| "truthy (JNum x) = (x \<noteq> 0)"
| "truthy (JStr s) = (s \<noteq> [])"
| "truthy (JArr xs) = True"
| "truthy (JObj kvs) = True"

text \<open>An optional string field of the configuration: \<open>undefined\<close> and \<open>""\<close> are falsy.\<close>

definition truthy_string :: "string option \<Rightarrow> bool" where
  "truthy_string x = (case x of None \<Rightarrow> False | Some s \<Rightarrow> s \<noteq> [])"

text \<open>A thrown value: an instance of \<open>Error\<close> with its \<open>name\<close> and \<open>message\<close>, or
  anything else.\<close>

datatype thrown = JsError string string | NonError

text \<open>Reading a property. The names the client reads (\<open>error\<close>, \<open>type\<close>, \<open>reason\<close>)
  are properties of no array, string, number or boolean, so only an object can have them.
  \<open>v.k\<close> throws a \<open>TypeError\<close> on \<open>null\<close>; \<open>v?.k\<close> is \<open>undefined\<close> on \<open>null\<close> and
  on \<open>undefined\<close>.\<close>

fun property :: "json \<Rightarrow> string \<Rightarrow> json option" where
  "property (JObj kvs) k = map_of kvs k"
| "property v k = None"

definition member :: "json \<Rightarrow> string \<Rightarrow> thrown + json option" where
  "member v k =
     (if v = JNull
      then Inl (JsError ''TypeError''
             (''Cannot read properties of null (reading '' @ [CHR 0x27] @ k @ [CHR 0x27] @ '')''))
      else Inr (property v k))"

definition optional_member :: "json option \<Rightarrow> string \<Rightarrow> json option" where
  "optional_member v k =
     (case v of None \<Rightarrow> None | Some w \<Rightarrow> if w = JNull then None else property w k)"

text \<open>\<open>a || b\<close> where \<open>a\<close> may be \<open>undefined\<close>.\<close>

definition js_or :: "json option \<Rightarrow> json \<Rightarrow> json" where
  "js_or a b = (case a of None \<Rightarrow> b | Some v \<Rightarrow> if truthy v then v else b)"

subsection \<open>Numbers\<close>

text \<open>
  A number of the host language is a double. The client prints numbers (\<open>String(n)\<close>,
  \<open>`${n}`\<close>) and sets a timer to one, and does nothing else with them. \<open>Integer neg m\<close>
  is the safe integer of magnitude \<open>unat m\<close>, which is below \<open>2^53\<close>, negated when
  \<open>neg\<close> holds (\<open>Integer True 0\<close> is the negative zero). Every other number, that is a
  number with a fraction, an integer of magnitude \<open>2^53\<close> or more, \<open>NaN\<close> and the two
  infinities, is \<open>Other t\<close>, where \<open>t\<close> is the text that the platform prints for it
  (\<open>1.5\<close>, \<open>1e+21\<close>, \<open>NaN\<close>): how a double that is not a safe integer comes to its
  text is not modelled.
\<close>

datatype number = Integer bool "53 word" | Other string

text \<open>The decimal digits of a natural number, and the number that decimal digits
  denote.\<close>

definition digit_char :: "nat \<Rightarrow> char" where
  "digit_char n = ''0123456789'' ! n"

function string_of_nat :: "nat \<Rightarrow> string" where
  "string_of_nat n =
     (if n < 10 then [digit_char n]
      else string_of_nat (n div 10) @ [digit_char (n mod 10)])"
  by pat_completeness auto
termination
  by (relation "measure id") auto

declare string_of_nat.simps [simp del]

definition is_digit :: "char \<Rightarrow> bool" where
  "is_digit c = (c \<in> set ''0123456789'')"

definition decimal_value :: "string \<Rightarrow> nat" where
  "decimal_value s = foldl (\<lambda>a c. 10 * a + ((of_char c :: nat) - 48)) 0 s"

text \<open>\<open>String(n)\<close> and \<open>`${n}`\<close>: a safe integer is printed by its decimal digits, after
  a minus sign when it is below zero (both zeros are printed \<open>0\<close>).\<close>

fun Number_toString :: "number \<Rightarrow> string" where
  "Number_toString (Integer neg m) =
     (if neg \<and> m \<noteq> 0 then ''-'' else []) @ string_of_nat (unat m)"
| "Number_toString (Other t) = t"

text \<open>The delay, in milliseconds, of a timer set by \<open>setTimeout(f, n)\<close>. The platform
  drops the fraction of \<open>n\<close>, and sets the delay to 1 when \<open>n\<close> is not a number from 1
  to \<open>2147483647\<close>. Among the numbers that are not safe integers, only those printed as
  digits, a point and digits can be in that range.\<close>

definition setTimeout_delay :: "number \<Rightarrow> nat" where
  "setTimeout_delay n =
     (case n of
        Integer neg m \<Rightarrow>
          if \<not> neg \<and> 1 \<le> unat m \<and> unat m \<le> 2147483647 then unat m else 1
      | Other t \<Rightarrow>
          (let whole = takeWhile is_digit t; rest = dropWhile is_digit t in
           if whole \<noteq> [] \<and> rest \<noteq> [] \<and> hd rest = CHR ''.'' \<and> tl rest \<noteq> [] \<and>
              list_all is_digit (tl rest) \<and>
              1 \<le> decimal_value whole \<and> decimal_value whole \<le> 2147483646
           then decimal_value whole else 1))"

text \<open>A value of a query-parameter record, of type \<open>string | number | boolean\<close>, and
  \<open>String(value)\<close>.\<close>

datatype qvalue = QStr string | QNum number | QBool bool

fun String_of :: "qvalue \<Rightarrow> string" where
  "String_of (QStr s) = s"
| "String_of (QNum n) = Number_toString n"
| "String_of (QBool b) = (if b then ''true'' else ''false'')"

subsection \<open>Base64\<close>

text \<open>\<open>Buffer.from(s).toString('base64')\<close>: the standard alphabet, padded with \<open>=\<close>.\<close>

definition base64_char :: "nat \<Rightarrow> char" where
  "base64_char n =
     ''ABCDEFGHIJKLMNOPQRSTUVWXYZabcdefghijklmnopqrstuvwxyz0123456789+/'' ! n"

fun base64_bytes :: "nat list \<Rightarrow> string" where
  "base64_bytes [] = []"
| "base64_bytes [a] =
     [base64_char (a div 4), base64_char ((a mod 4) * 16), CHR ''='', CHR ''='']"
| "base64_bytes [a, b] =
     [base64_char (a div 4), base64_char ((a mod 4) * 16 + b div 16),
      base64_char ((b mod 16) * 4), CHR ''='']"
| "base64_bytes (a # b # c # rest) =
     [base64_char (a div 4), base64_char ((a mod 4) * 16 + b div 16),
      base64_char ((b mod 16) * 4 + c div 64), base64_char (c mod 64)] @ base64_bytes rest"

definition base64 :: "string \<Rightarrow> string" where
  "base64 s = base64_bytes (map of_char s)"

subsection \<open>Query strings\<close>

text \<open>\<open>URLSearchParams.prototype.toString\<close>: the \<open>application/x-www-form-urlencoded\<close>
  serializer. Letters, digits and \<open>* - . _\<close> stand for themselves, a space becomes
  \<open>+\<close>, every other byte becomes \<open>%\<close> and two upper-case hexadecimal digits; a name and
  its value are joined by \<open>=\<close>, the pairs by \<open>&\<close>.\<close>

definition urlencoded_safe :: "char \<Rightarrow> bool" where
  "urlencoded_safe c =
     (let n = (of_char c :: nat) in
        (48 \<le> n \<and> n \<le> 57) \<or> (65 \<le> n \<and> n \<le> 90) \<or> (97 \<le> n \<and> n \<le> 122)
        \<or> n = 42 \<or> n = 45 \<or> n = 46 \<or> n = 95)"

definition hex_digit :: "nat \<Rightarrow> char" where
  "hex_digit n = ''0123456789ABCDEF'' ! n"

definition urlencoded_byte :: "char \<Rightarrow> string" where
  "urlencoded_byte c =
     (if c = CHR '' '' then ''+''
      else if urlencoded_safe c then [c]
      else [CHR ''%'', hex_digit ((of_char c :: nat) div 16), hex_digit ((of_char c :: nat) mod 16)])"

definition urlencoded_string :: "string \<Rightarrow> string" where
  "urlencoded_string s = concat (map urlencoded_byte s)"

definition urlencoded_pair :: "string \<times> string \<Rightarrow> string" where
  "urlencoded_pair p = urlencoded_string (fst p) @ ''='' @ urlencoded_string (snd p)"

fun URLSearchParams_toString :: "(string \<times> string) list \<Rightarrow> string" where
  "URLSearchParams_toString [] = []"
| "URLSearchParams_toString [p] = urlencoded_pair p"
| "URLSearchParams_toString (p # q # ps) =
     urlencoded_pair p @ ''&'' @ URLSearchParams_toString (q # ps)"

section \<open>The platform\<close>

text \<open>
  What the client calls and does not define: \<open>JSON.parse\<close> (\<open>None\<close> where it throws
  a \<open>SyntaxError\<close>), \<open>JSON.stringify\<close> and \<open>fetch\<close>. They are parameters of the
  model, so every theorem below holds whatever they do.

  \<open>fetch\<close> is given the URL and the options and is awaited while the countdown
  \<open>setTimeout(() => controller.abort(), this.timeout)\<close> runs against it. Three things
  can happen: the remote service responds first (\<open>Resolved\<close>), the exchange fails first
  (\<open>Rejected\<close>, with the fault), or the countdown elapses first (\<open>Elapsed\<close>); then
  \<open>controller.abort()\<close> cancels the exchange and the awaited promise rejects with the
  \<open>AbortError\<close> of the abort signal. The body of a response is read afterwards by
  \<open>response.text()\<close>, which can fail as well.

  The options of \<open>fetch\<close> are \<open>method\<close>, \<open>headers\<close>, \<open>signal\<close> and, when it is
  set, \<open>body\<close>. The signal is the one of the controller that the countdown aborts; it is
  represented by the number that the countdown is set to.
\<close>

record Response =
  ok :: bool
  status :: int
  statusText :: string
  body_text :: "thrown + string"

record RequestInit =
  opt_method :: string
  opt_headers :: "(string \<times> string) list"
  opt_signal :: number
  opt_body :: "string option"

datatype fetch_result = Resolved Response | Rejected thrown | Elapsed

record runtime =
  JSON_parse :: "string \<Rightarrow> json option"
  JSON_stringify :: "json \<Rightarrow> string"
  fetch :: "string \<Rightarrow> RequestInit \<Rightarrow> fetch_result"

text \<open>
  A \<open>fetch\<close> that the signal cancels, over a network that says when an exchange, left
  alone, settles and how. \<open>Settles t s\<close>: it settles with \<open>s\<close> when \<open>t\<close> whole
  milliseconds and a part of the next have passed since its issue; \<open>Never\<close>: it does
  not settle. The countdown of the signal elapses when \<open>setTimeout_delay\<close> of its number
  whole milliseconds have passed, so the exchange settles first exactly when \<open>t\<close> is
  below that delay.
\<close>

datatype settlement = Resolves Response | Rejects thrown

datatype exchange = Settles nat settlement | Never

definition fetch_with_signal ::
  "(string \<Rightarrow> RequestInit \<Rightarrow> exchange) \<Rightarrow> string \<Rightarrow> RequestInit \<Rightarrow> fetch_result" where
  "fetch_with_signal network url init =
     (case network url init of
        Never \<Rightarrow> Elapsed
      | Settles t s \<Rightarrow>
          if t < setTimeout_delay (opt_signal init)
          then (case s of Resolves response \<Rightarrow> Resolved response | Rejects e \<Rightarrow> Rejected e)
          else Elapsed)"

definition await_fetch :: "fetch_result \<Rightarrow> thrown + Response" where
  "await_fetch r =
     (case r of
        Resolved response \<Rightarrow> Inr response
      | Rejected e \<Rightarrow> Inl e
      | Elapsed \<Rightarrow> Inl (JsError ''AbortError'' ''This operation was aborted''))"

section \<open>The client\<close>

text \<open>\<open>Config\<close> and \<open>ElasticResponse\<close> are the types of \<open>src/types/elastic.ts\<close>. An
  optional field is an \<open>option\<close>. The \<open>type\<close> and \<open>reason\<close> of an error are declared
  strings, but hold whatever the decoded body held there, so their type here is
  \<open>json\<close>. The timeout is any number.\<close>

record Config =
  elasticUrl :: string
  apiKeyEncoded :: "string option"
  apiKeyId :: "string option"
  apiKeySecret :: "string option"
  username :: "string option"
  password :: "string option"
  skipSslVerify :: bool
  timeout :: number

record ErrorInfo =
  err_type :: json
  err_reason :: json
  err_status :: "int option"

record ElasticResponse =
  success :: bool
  data :: "json option"
  error :: "ErrorInfo option"

record ElasticClient =
  baseUrl :: string
  headers :: "(string \<times> string) list"
  this_timeout :: number
  this_skipSslVerify :: bool

subsection \<open>Construction\<close>

text \<open>\<open>config.elasticUrl.replace(/\/$/, '')\<close>: one slash at the very end is removed.\<close>

definition strip_trailing_slash :: "string \<Rightarrow> string" where
  "strip_trailing_slash s = (if s \<noteq> [] \<and> last s = CHR ''/'' then butlast s else s)"

definition no_credentials :: thrown where
  "no_credentials = JsError ''Error''
     ''No authentication credentials provided. Set ELASTIC_API_KEY_ENCODED, or ELASTIC_API_KEY_ID + ELASTIC_API_KEY_SECRET, or ELASTIC_USERNAME + ELASTIC_PASSWORD''"

text \<open>A template literal prints an optional string as it is, and \<open>undefined\<close> by
  that word.\<close>

definition interpolate :: "string option \<Rightarrow> string" where
  "interpolate x = (case x of None \<Rightarrow> ''undefined'' | Some s \<Rightarrow> s)"

text \<open>The \<open>Authorization\<close> header: the chain of \<open>if\<close>s of the constructor, which ends
  in \<open>throw\<close>. The constructor is given the configuration only: it calls nothing of
  the network.\<close>

definition authorization :: "Config \<Rightarrow> thrown + string" where
  "authorization config =
     (if truthy_string (apiKeyEncoded config)
      then Inr (''ApiKey '' @ interpolate (apiKeyEncoded config))
      else if truthy_string (apiKeyId config) \<and> truthy_string (apiKeySecret config)
      then Inr (''ApiKey '' @
                base64 (interpolate (apiKeyId config) @ '':'' @ interpolate (apiKeySecret config)))
      else if truthy_string (username config) \<and> truthy_string (password config)
      then Inr (''Basic '' @
                base64 (interpolate (username config) @ '':'' @ interpolate (password config)))
      else Inl no_credentials)"

definition new_ElasticClient :: "Config \<Rightarrow> thrown + ElasticClient" where
  "new_ElasticClient config =
     (case authorization config of
        Inl e \<Rightarrow> Inl e
      | Inr auth \<Rightarrow>
          Inr \<lparr> baseUrl = strip_trailing_slash (elasticUrl config),
                headers = [(''Content-Type'', ''application/json''), (''Authorization'', auth)],
                this_timeout = timeout config,
                this_skipSslVerify = skipSslVerify config \<rparr>)"

subsection \<open>Request execution\<close>

text \<open>The URL: base endpoint, path, and the query string when \<open>queryParams\<close> is given and
  has a key. \<open>queryParams\<close> is the list \<open>Object.entries\<close> returns.\<close>

definition request_url ::
  "ElasticClient \<Rightarrow> string \<Rightarrow> (string \<times> qvalue) list option \<Rightarrow> string" where
  "request_url c path queryParams =
     (let url = baseUrl c @ path in
      case queryParams of
        None \<Rightarrow> url
      | Some entries \<Rightarrow>
          if length entries > 0
          then url @ ''?'' @ URLSearchParams_toString (map (\<lambda>(key, v). (key, String_of v)) entries)
          else url)"

text \<open>The options handed to \<open>fetch\<close>. The countdown behind the signal is
  \<open>this.timeout\<close>; \<open>body\<close> is set only under
  \<open>body && method !== 'GET' && method !== 'HEAD'\<close>. A body is a JSON value, for which
  \<open>JSON.stringify\<close> returns a text.\<close>

definition fetchOptions ::
  "runtime \<Rightarrow> ElasticClient \<Rightarrow> string \<Rightarrow> json option \<Rightarrow> RequestInit" where
  "fetchOptions rt c method' body =
     \<lparr> opt_method = method',
       opt_headers = headers c,
       opt_signal = this_timeout c,
       opt_body =
         (case body of
            None \<Rightarrow> None
          | Some b \<Rightarrow>
              if truthy b \<and> method' \<noteq> ''GET'' \<and> method' \<noteq> ''HEAD''
              then Some (JSON_stringify rt b) else None) \<rparr>"

text \<open>\<open>responseText ? JSON.parse(responseText) : {}\<close>, inside its own \<open>try\<close>, whose
  \<open>catch\<close> gives \<open>{ raw: responseText }\<close>.\<close>

definition responseData :: "runtime \<Rightarrow> string \<Rightarrow> json" where
  "responseData rt responseText =
     (if responseText \<noteq> []
      then (case JSON_parse rt responseText of
              Some v \<Rightarrow> v
            | None \<Rightarrow> JObj [(''raw'', JStr responseText)])
      else JObj [])"

text \<open>The value returned under \<open>!response.ok\<close>.\<close>

definition http_failure :: "Response \<Rightarrow> json option \<Rightarrow> ElasticResponse" where
  "http_failure response err =
     \<lparr> success = False, data = None,
       error = Some
         \<lparr> err_type = js_or (optional_member err ''type'') (JStr ''request_error''),
           err_reason = js_or (optional_member err ''reason'')
             (if statusText response \<noteq> [] then JStr (statusText response)
              else JStr ''Request failed''),
           err_status = Some (status response) \<rparr> \<rparr>"

text \<open>The body of the outer \<open>try\<close>: \<open>Inl\<close> is a value thrown in it.\<close>

definition request_try ::
  "runtime \<Rightarrow> ElasticClient \<Rightarrow> string \<Rightarrow> string \<Rightarrow> json option \<Rightarrow>
   (string \<times> qvalue) list option \<Rightarrow> thrown + ElasticResponse" where
  "request_try rt c method' path body queryParams =
     (case await_fetch (fetch rt (request_url c path queryParams) (fetchOptions rt c method' body)) of
        Inl e \<Rightarrow> Inl e
      | Inr response \<Rightarrow>
          (case body_text response of
             Inl e \<Rightarrow> Inl e
           | Inr responseText \<Rightarrow>
               if \<not> ok response
               then (case member (responseData rt responseText) ''error'' of
                       Inl e \<Rightarrow> Inl e
                     | Inr err \<Rightarrow> Inr (http_failure response err))
               else Inr \<lparr> success = True, data = Some (responseData rt responseText),
                          error = None \<rparr>))"

text \<open>The outer \<open>catch\<close>.\<close>

definition failure :: "string \<Rightarrow> string \<Rightarrow> ElasticResponse" where
  "failure kind why =
     \<lparr> success = False, data = None,
       error = Some \<lparr> err_type = JStr kind, err_reason = JStr why, err_status = None \<rparr> \<rparr>"

definition request_catch :: "ElasticClient \<Rightarrow> thrown \<Rightarrow> thrown + ElasticResponse" where
  "request_catch c e =
     (case e of
        JsError name' message' \<Rightarrow>
          if name' = ''AbortError''
          then Inr (failure ''timeout''
                 (''Request timed out after '' @ Number_toString (this_timeout c) @ ''ms''))
          else Inr (failure ''connection_error'' message')
      | NonError \<Rightarrow> Inr (failure ''unknown_error'' ''An unknown error occurred''))"

text \<open>\<open>request\<close>: \<open>Inl\<close> would be a value thrown out of the call (a rejected promise).\<close>

definition request ::
  "runtime \<Rightarrow> ElasticClient \<Rightarrow> string \<Rightarrow> string \<Rightarrow> json option \<Rightarrow>
   (string \<times> qvalue) list option \<Rightarrow> thrown + ElasticResponse" where
  "request rt c method' path body queryParams =
     (case request_try rt c method' path body queryParams of
        Inl e \<Rightarrow> request_catch c e
      | Inr r \<Rightarrow> Inr r)"

subsection \<open>Convenience methods\<close>

definition get ::
  "runtime \<Rightarrow> ElasticClient \<Rightarrow> string \<Rightarrow> (string \<times> qvalue) list option \<Rightarrow>
   thrown + ElasticResponse" where
  "get rt c path queryParams = request rt c ''GET'' path None queryParams"

definition post ::
  "runtime \<Rightarrow> ElasticClient \<Rightarrow> string \<Rightarrow> json option \<Rightarrow> (string \<times> qvalue) list option \<Rightarrow>
   thrown + ElasticResponse" where
  "post rt c path body queryParams = request rt c ''POST'' path body queryParams"

definition put ::
  "runtime \<Rightarrow> ElasticClient \<Rightarrow> string \<Rightarrow> json option \<Rightarrow> (string \<times> qvalue) list option \<Rightarrow>
   thrown + ElasticResponse" where
  "put rt c path body queryParams = request rt c ''PUT'' path body queryParams"

definition delete ::
  "runtime \<Rightarrow> ElasticClient \<Rightarrow> string \<Rightarrow> json option \<Rightarrow> (string \<times> qvalue) list option \<Rightarrow>
   thrown + ElasticResponse" where
  "delete rt c path body queryParams = request rt c ''DELETE'' path body queryParams"

section \<open>Reading a number back\<close>

text \<open>A text is the decimal of a natural number when it is made of digits, at least one,
  denotes the number, and starts with \<open>0\<close> only if it is \<open>0\<close>.\<close>

definition decimal_of :: "nat \<Rightarrow> string \<Rightarrow> bool" where
  "decimal_of n s =
     (s \<noteq> [] \<and> list_all is_digit s \<and> decimal_value s = n \<and>
      (if hd s = CHR ''0'' then s = ''0'' else True))"

section \<open>Reading a query string back\<close>

text \<open>The \<open>application/x-www-form-urlencoded\<close> parser, the inverse the serializer is
  measured against: the text is split at every \<open>&\<close>, empty pieces are dropped, a piece
  is split at its first \<open>=\<close>, and in the name and in the value \<open>+\<close> is read as a
  space and \<open>%\<close> with two hexadecimal digits as the byte they denote.\<close>

fun split_on :: "char \<Rightarrow> string \<Rightarrow> string list" where
  "split_on d [] = [[]]"
| "split_on d (c # cs) =
     (if c = d then [] # split_on d cs
      else (case split_on d cs of [] \<Rightarrow> [[c]] | seg # segs \<Rightarrow> (c # seg) # segs))"

definition hex_value :: "char \<Rightarrow> nat option" where
  "hex_value c =
     (let n = (of_char c :: nat) in
      if 48 \<le> n \<and> n \<le> 57 then Some (n - 48)
      else if 65 \<le> n \<and> n \<le> 70 then Some (n - 55)
      else if 97 \<le> n \<and> n \<le> 102 then Some (n - 87)
      else None)"

fun percent_decode :: "string \<Rightarrow> string" where
  "percent_decode [] = []"
| "percent_decode (c # cs) =
     (if c = CHR ''%''
      then (case cs of
              h # l # rest \<Rightarrow>
                (case (hex_value h, hex_value l) of
                   (Some a, Some b) \<Rightarrow> char_of (16 * a + b) # percent_decode rest
                 | _ \<Rightarrow> c # percent_decode cs)
            | _ \<Rightarrow> c # percent_decode cs)
      else c # percent_decode cs)"

definition plus_to_space :: "string \<Rightarrow> string" where
  "plus_to_space s = map (\<lambda>c. if c = CHR ''+'' then CHR '' '' else c) s"

definition urlencoded_decode :: "string \<Rightarrow> string" where
  "urlencoded_decode s = percent_decode (plus_to_space s)"

definition parse_pair :: "string \<Rightarrow> string \<times> string" where
  "parse_pair seg =
     (urlencoded_decode (takeWhile (\<lambda>c. c \<noteq> CHR ''='') seg),
      urlencoded_decode (drop 1 (dropWhile (\<lambda>c. c \<noteq> CHR ''='') seg)))"

definition urlencoded_parse :: "string \<Rightarrow> (string \<times> string) list" where
  "urlencoded_parse q = map parse_pair (filter (\<lambda>seg. seg \<noteq> []) (split_on CHR ''&'' q))"

section \<open>A concrete platform and client\<close>

text \<open>The values of \<open>JSON.parse\<close> and \<open>JSON.stringify\<close> at the arguments the examples
  below use (at every other argument the examples do not depend on them), a \<open>fetch\<close> with
  a fixed result, and the configuration and client of the test suite.\<close>

definition sample_JSON_parse :: "string \<Rightarrow> json option" where
  "sample_JSON_parse s =
     map_of
       [(''{\"error\":{\"type\":\"index_not_found_exception\",\"reason\":\"no such index\"}}'',
           JObj [(''error'', JObj [(''type'', JStr ''index_not_found_exception''),
                                   (''reason'', JStr ''no such index'')])]),
        (''{\"cluster_name\":\"test\"}'', JObj [(''cluster_name'', JStr ''test'')]),
        (''{\"query\":{\"match_all\":{}}}'', JObj [(''query'', JObj [(''match_all'', JObj [])])]),
        (''{}'', JObj []),
        (''null'', JNull)] s"

definition sample_JSON_stringify :: "json \<Rightarrow> string" where
  "sample_JSON_stringify v =
     (if v = JObj [(''query'', JObj [(''match_all'', JObj [])])]
      then ''{\"query\":{\"match_all\":{}}}''
      else if v = JObj [] then ''{}''
      else ''null'')"

definition sample_runtime :: "fetch_result \<Rightarrow> runtime" where
  "sample_runtime r =
     \<lparr> JSON_parse = sample_JSON_parse, JSON_stringify = sample_JSON_stringify,
       fetch = (\<lambda>url init. r) \<rparr>"

definition sample_config :: Config where
  "sample_config =
     \<lparr> elasticUrl = ''https://test.elastic.cloud'', apiKeyEncoded = Some ''test-key'',
       apiKeyId = None, apiKeySecret = None, username = None, password = None,
       skipSslVerify = False, timeout = Integer False 30000 \<rparr>"

definition sample_client :: ElasticClient where
  "sample_client =
     \<lparr> baseUrl = ''https://test.elastic.cloud'',
       headers = [(''Content-Type'', ''application/json''), (''Authorization'', ''ApiKey test-key'')],
       this_timeout = Integer False 30000, this_skipSslVerify = False \<rparr>"

text \<open>Responses of the remote service: the \<open>404\<close> of the test suite, a failure with
  neither a body nor a status text (as over HTTP/2, which has no reason phrase), a failure
  whose body is the JSON text \<open>null\<close>, a page that is not JSON, a success without a
  body, and the answer of the service root.\<close>

definition not_found_body :: string where
  "not_found_body =
     ''{\"error\":{\"type\":\"index_not_found_exception\",\"reason\":\"no such index\"}}''"

definition not_found :: Response where
  "not_found =
     \<lparr> ok = False, status = 404, statusText = ''Not Found'', body_text = Inr not_found_body \<rparr>"

definition unavailable :: Response where
  "unavailable = \<lparr> ok = False, status = 503, statusText = '''', body_text = Inr '''' \<rparr>"

definition null_body :: Response where
  "null_body =
     \<lparr> ok = False, status = 500, statusText = ''Internal Server Error'',
       body_text = Inr ''null'' \<rparr>"

definition html_page :: Response where
  "html_page = \<lparr> ok = True, status = 200, statusText = ''OK'', body_text = Inr ''<html>'' \<rparr>"

definition no_content :: Response where
  "no_content = \<lparr> ok = True, status = 204, statusText = ''No Content'', body_text = Inr '''' \<rparr>"

definition root_info :: Response where
  "root_info =
     \<lparr> ok = True, status = 200, statusText = ''OK'',
       body_text = Inr ''{\"cluster_name\":\"test\"}'' \<rparr>"

text \<open>Configurations: with every credential source, with an id and secret pair and a
  user name and password, with a user name and password next to an id that has no
  secret, with no credential (the four of them with the endpoint of the test suite), and
  with an endpoint that ends in one slash and in two.\<close>

definition all_sources_config :: Config where
  "all_sources_config =
     \<lparr> elasticUrl = ''https://test.elastic.cloud'',
       apiKeyEncoded = Some ''dGVzdC1lbmNvZGVkLWtleQ=='',
       apiKeyId = Some ''test-id'', apiKeySecret = Some ''test-secret'',
       username = Some ''elastic'', password = Some ''password'',
       skipSslVerify = False, timeout = Integer False 30000 \<rparr>"

definition id_secret_config :: Config where
  "id_secret_config =
     \<lparr> elasticUrl = ''https://test.elastic.cloud'', apiKeyEncoded = None,
       apiKeyId = Some ''test-id'', apiKeySecret = Some ''test-secret'',
       username = Some ''elastic'', password = Some ''password'',
       skipSslVerify = False, timeout = Integer False 30000 \<rparr>"

definition basic_config :: Config where
  "basic_config =
     \<lparr> elasticUrl = ''https://test.elastic.cloud'', apiKeyEncoded = None,
       apiKeyId = Some ''test-id'', apiKeySecret = None,
       username = Some ''elastic'', password = Some ''password'',
       skipSslVerify = False, timeout = Integer False 30000 \<rparr>"

definition bare_config :: Config where
  "bare_config =
     \<lparr> elasticUrl = ''https://test.elastic.cloud'', apiKeyEncoded = None,
       apiKeyId = None, apiKeySecret = None, username = None, password = None,
       skipSslVerify = False, timeout = Integer False 30000 \<rparr>"

definition slash_config :: Config where
  "slash_config =
     \<lparr> elasticUrl = ''https://test.elastic.cloud/'', apiKeyEncoded = Some ''test-key'',
       apiKeyId = None, apiKeySecret = None, username = None, password = None,
       skipSslVerify = False, timeout = Integer False 30000 \<rparr>"

definition two_slashes_config :: Config where
  "two_slashes_config =
     \<lparr> elasticUrl = ''https://test.elastic.cloud//'', apiKeyEncoded = Some ''test-key'',
       apiKeyId = None, apiKeySecret = None, username = None, password = None,
       skipSslVerify = False, timeout = Integer False 30000 \<rparr>"

definition two_slashes_client :: ElasticClient where
  "two_slashes_client =
     \<lparr> baseUrl = ''https://test.elastic.cloud/'',
       headers = [(''Content-Type'', ''application/json''), (''Authorization'', ''ApiKey test-key'')],
       this_timeout = Integer False 30000, this_skipSslVerify = False \<rparr>"

text \<open>A configuration whose timeout is beyond the range of a timer, with its client; a
  network on which nothing answers and one on which the service root answers in the sixth
  millisecond; and the platform with a \<open>fetch\<close> that the signal cancels.\<close>

definition long_config :: Config where
  "long_config =
     \<lparr> elasticUrl = ''https://test.elastic.cloud'', apiKeyEncoded = Some ''test-key'',
       apiKeyId = None, apiKeySecret = None, username = None, password = None,
       skipSslVerify = False, timeout = Integer False 3000000000 \<rparr>"

definition long_client :: ElasticClient where
  "long_client =
     \<lparr> baseUrl = ''https://test.elastic.cloud'',
       headers = [(''Content-Type'', ''application/json''), (''Authorization'', ''ApiKey test-key'')],
       this_timeout = Integer False 3000000000, this_skipSslVerify = False \<rparr>"

definition silent_network :: "string \<Rightarrow> RequestInit \<Rightarrow> exchange" where
  "silent_network url init = Never"

definition quick_network :: "string \<Rightarrow> RequestInit \<Rightarrow> exchange" where
  "quick_network url init = Settles 5 (Resolves root_info)"

definition timed_runtime :: "(string \<Rightarrow> RequestInit \<Rightarrow> exchange) \<Rightarrow> runtime" where
  "timed_runtime network =
     \<lparr> JSON_parse = sample_JSON_parse, JSON_stringify = sample_JSON_stringify,
       fetch = fetch_with_signal network \<rparr>"

text \<open>Query parameters with values of the three types.\<close>

definition explain_params :: "(string \<times> qvalue) list" where
  "explain_params =
     [(''index'', QStr ''my logs''), (''shard'', QNum (Integer False 12)),
      (''primary'', QBool True), (''offset'', QNum (Integer True 7)),
      (''boost'', QNum (Other ''1.5''))]"

text \<open>A request body, and the outcome of the \<open>404\<close> above.\<close>

definition match_all :: json where
  "match_all = JObj [(''query'', JObj [(''match_all'', JObj [])])]"

definition not_found_outcome :: ElasticResponse where
  "not_found_outcome =
     \<lparr> success = False, data = None,
       error = Some \<lparr> err_type = JStr ''index_not_found_exception'',
                      err_reason = JStr ''no such index'', err_status = Some 404 \<rparr> \<rparr>"

section \<open>What is observed of an outcome\<close>

text \<open>An outcome has exactly one variant populated when \<open>data\<close> is there and \<open>error\<close>
  is not under \<open>success\<close>, and the other way round otherwise. Its status is the one of
  its error, if it has both.\<close>

definition exactly_one_variant :: "ElasticResponse \<Rightarrow> bool" where
  "exactly_one_variant r =
     (if success r then data r \<noteq> None \<and> error r = None
      else data r = None \<and> error r \<noteq> None)"

definition status_of :: "ElasticResponse \<Rightarrow> int option" where
  "status_of r = (case error r of None \<Rightarrow> None | Some i \<Rightarrow> err_status i)"

section \<open>Auxiliary facts\<close>

subsection \<open>Decimal text\<close>

lemma string_of_nat_small: "n < 10 \<Longrightarrow> string_of_nat n = [digit_char n]"
  by (simp add: string_of_nat.simps)

lemma string_of_nat_big:
  "10 \<le> n \<Longrightarrow> string_of_nat n = string_of_nat (n div 10) @ [digit_char (n mod 10)]"
  by (subst string_of_nat.simps) simp

lemma string_of_nat_nonempty: "string_of_nat n \<noteq> []"
  by (subst string_of_nat.simps) simp

lemma is_digit_digit_char: "n < 10 \<Longrightarrow> is_digit (digit_char n)"
  by (auto simp add: eval_nat_numeral less_Suc_eq digit_char_def is_digit_def)

lemma digit_char_zero: "n < 10 \<Longrightarrow> (digit_char n = CHR ''0'') = (n = 0)"
  by (auto simp add: eval_nat_numeral less_Suc_eq digit_char_def)

lemma string_of_nat_digits: "list_all is_digit (string_of_nat n)"
proof (induction n rule: string_of_nat.induct)
  case (1 n)
  show ?case
  proof (cases "n < 10")
    case True
    then show ?thesis
      by (simp add: string_of_nat_small is_digit_digit_char)
  next
    case False
    then show ?thesis
      using "1.IH" by (simp add: string_of_nat_big is_digit_digit_char)
  qed
qed

lemma of_char_digit_char: "n < 10 \<Longrightarrow> (of_char (digit_char n) :: nat) = 48 + n"
  by (auto simp add: eval_nat_numeral less_Suc_eq digit_char_def)

lemma decimal_value_snoc:
  "decimal_value (s @ [c]) = 10 * decimal_value s + ((of_char c :: nat) - 48)"
  by (simp add: decimal_value_def)

lemma decimal_value_string_of_nat: "decimal_value (string_of_nat n) = n"
proof (induction n rule: string_of_nat.induct)
  case (1 n)
  show ?case
  proof (cases "n < 10")
    case True
    then show ?thesis
      by (simp add: string_of_nat_small decimal_value_def of_char_digit_char)
  next
    case False
    then have "decimal_value (string_of_nat (n div 10)) = n div 10"
      using "1.IH" by simp
    with False show ?thesis
      by (simp add: string_of_nat_big decimal_value_snoc of_char_digit_char)
  qed
qed

lemma string_of_nat_no_leading_zero:
  "0 < n \<Longrightarrow> hd (string_of_nat n) \<noteq> CHR ''0''"
proof (induction n rule: string_of_nat.induct)
  case (1 n)
  show ?case
  proof (cases "n < 10")
    case True
    with "1.prems" show ?thesis
      by (auto simp add: string_of_nat_small digit_char_zero)
  next
    case False
    then have "0 < n div 10"
      by simp
    with False have "hd (string_of_nat (n div 10)) \<noteq> CHR ''0''"
      using "1.IH" by simp
    with False show ?thesis
      by (simp add: string_of_nat_big string_of_nat_nonempty)
  qed
qed

lemma string_of_nat_leading:
  "hd (string_of_nat n) = CHR ''0'' \<Longrightarrow> string_of_nat n = ''0''"
proof (cases "n = 0")
  case True
  then show ?thesis
    by (simp add: string_of_nat_small digit_char_def)
next
  case False
  assume "hd (string_of_nat n) = CHR ''0''"
  with False show ?thesis
    using string_of_nat_no_leading_zero [of n] by simp
qed

lemma decimal_of_string_of_nat: "decimal_of n (string_of_nat n)"
  using string_of_nat_leading [of n]
  by (simp add: decimal_of_def string_of_nat_nonempty string_of_nat_digits
      decimal_value_string_of_nat)

subsection \<open>Base64 on the vectors of RFC 4648\<close>

lemma base64_rfc4648_vectors:
  "base64 '''' = ''''"
  "base64 ''f'' = ''Zg==''"
  "base64 ''fo'' = ''Zm8=''"
  "base64 ''foo'' = ''Zm9v''"
  "base64 ''foob'' = ''Zm9vYg==''"
  "base64 ''fooba'' = ''Zm9vYmE=''"
  "base64 ''foobar'' = ''Zm9vYmFy''"
  by (simp_all add: base64_def base64_char_def)

subsection \<open>The query string can be read back\<close>

lemma hex_value_hex_digit: "n < 16 \<Longrightarrow> hex_value (hex_digit n) = Some n"
  by (auto simp add: eval_nat_numeral less_Suc_eq hex_digit_def hex_value_def)

lemma hex_digit_not_special:
  "n < 16 \<Longrightarrow> hex_digit n \<notin> {CHR ''+'', CHR ''&'', CHR ''='', CHR ''%''}"
  by (auto simp add: eval_nat_numeral less_Suc_eq hex_digit_def)

lemma char_of_div_mod:
  "char_of (16 * ((of_char c :: nat) div 16) + (of_char c :: nat) mod 16) = c"
  by simp

lemma safe_not_special:
  "urlencoded_safe c \<Longrightarrow> c \<notin> {CHR ''+'', CHR ''&'', CHR ''='', CHR ''%'', CHR '' ''}"
  by (auto simp add: urlencoded_safe_def)

lemma div_16_less: "(n::nat) < 256 \<Longrightarrow> n div 16 < 16"
  by arith

lemma hex_digit_div: "(of_char c :: nat) div 16 < 16"
  by (rule div_16_less) simp

lemma urlencoded_byte_chars:
  "x \<in> set (urlencoded_byte c) \<Longrightarrow> x \<noteq> CHR ''&'' \<and> x \<noteq> CHR ''=''"
  using hex_digit_not_special [of "(of_char c :: nat) div 16"]
        hex_digit_not_special [of "(of_char c :: nat) mod 16"]
        safe_not_special [of c] hex_digit_div [of c]
  by (auto simp add: urlencoded_byte_def split: if_splits)

lemma urlencoded_string_chars:
  "x \<in> set (urlencoded_string s) \<Longrightarrow> x \<noteq> CHR ''&'' \<and> x \<noteq> CHR ''=''"
  using urlencoded_byte_chars by (auto simp add: urlencoded_string_def)

lemma decode_byte:
  "percent_decode (plus_to_space (urlencoded_byte c) @ rest) = c # percent_decode rest"
proof (cases "c = CHR '' ''")
  case True
  then show ?thesis by (simp add: urlencoded_byte_def plus_to_space_def)
next
  case False
  show ?thesis
  proof (cases "urlencoded_safe c")
    case True
    with False safe_not_special [of c] show ?thesis
      by (simp add: urlencoded_byte_def plus_to_space_def)
  next
    case unsafe: False
    let ?h = "hex_digit ((of_char c :: nat) div 16)"
    let ?l = "hex_digit ((of_char c :: nat) mod 16)"
    have h: "hex_value ?h = Some ((of_char c :: nat) div 16)"
      by (rule hex_value_hex_digit) (rule hex_digit_div)
    have l: "hex_value ?l = Some ((of_char c :: nat) mod 16)"
      by (rule hex_value_hex_digit) simp
    have hp: "?h \<noteq> CHR ''+''"
      using hex_digit_not_special [of "(of_char c :: nat) div 16"] hex_digit_div [of c] by auto
    have lp: "?l \<noteq> CHR ''+''"
      using hex_digit_not_special [of "(of_char c :: nat) mod 16"] by auto
    have "plus_to_space (urlencoded_byte c) = [CHR ''%'', ?h, ?l]"
      using False unsafe hp lp by (simp add: urlencoded_byte_def plus_to_space_def)
    then show ?thesis
      using h l char_of_div_mod [of c] by simp
  qed
qed

lemma plus_to_space_append: "plus_to_space (a @ b) = plus_to_space a @ plus_to_space b"
  by (simp add: plus_to_space_def)

lemma urlencoded_decode_encode: "urlencoded_decode (urlencoded_string s) = s"
proof -
  have "percent_decode (plus_to_space (urlencoded_string s)) = s"
  proof (induction s)
    case Nil
    show ?case by (simp add: urlencoded_string_def plus_to_space_def)
  next
    case (Cons c s)
    have "urlencoded_string (c # s) = urlencoded_byte c @ urlencoded_string s"
      by (simp add: urlencoded_string_def)
    then show ?case
      using decode_byte [of c "plus_to_space (urlencoded_string s)"] Cons
      by (simp add: plus_to_space_append)
  qed
  then show ?thesis by (simp add: urlencoded_decode_def)
qed

lemma takeWhile_no_eq:
  "CHR ''='' \<notin> set a \<Longrightarrow> takeWhile (\<lambda>c. c \<noteq> CHR ''='') (a @ CHR ''='' # b) = a"
  by (induction a) auto

lemma dropWhile_no_eq:
  "CHR ''='' \<notin> set a \<Longrightarrow>
   dropWhile (\<lambda>c. c \<noteq> CHR ''='') (a @ CHR ''='' # b) = CHR ''='' # b"
  by (induction a) auto

lemma parse_pair_urlencoded_pair: "parse_pair (urlencoded_pair p) = p"
proof -
  have "CHR ''='' \<notin> set (urlencoded_string (fst p))"
    using urlencoded_string_chars by blast
  then show ?thesis
    by (simp add: parse_pair_def urlencoded_pair_def takeWhile_no_eq dropWhile_no_eq
        urlencoded_decode_encode)
qed

lemma urlencoded_pair_chars: "CHR ''&'' \<notin> set (urlencoded_pair p)"
  using urlencoded_string_chars by (auto simp add: urlencoded_pair_def)

lemma urlencoded_pair_nonempty: "urlencoded_pair p \<noteq> []"
  by (simp add: urlencoded_pair_def)

lemma split_on_absent: "d \<notin> set a \<Longrightarrow> split_on d a = [a]"
  by (induction a) auto

lemma split_on_append: "d \<notin> set a \<Longrightarrow> split_on d (a @ d # b) = a # split_on d b"
  by (induction a) auto

lemma split_on_toString:
  "ps \<noteq> [] \<Longrightarrow> split_on CHR ''&'' (URLSearchParams_toString ps) = map urlencoded_pair ps"
proof (induction ps rule: URLSearchParams_toString.induct)
  case 1
  then show ?case by simp
next
  case (2 p)
  show ?case by (simp add: split_on_absent urlencoded_pair_chars)
next
  case (3 p q ps)
  then show ?case
    using split_on_append [OF urlencoded_pair_chars, of p "URLSearchParams_toString (q # ps)"]
    by simp
qed

lemma urlencoded_parse_toString: "urlencoded_parse (URLSearchParams_toString ps) = ps"
proof (cases "ps = []")
  case True
  then show ?thesis by (simp add: urlencoded_parse_def)
next
  case False
  have "filter (\<lambda>seg. seg \<noteq> []) (map urlencoded_pair ps) = map urlencoded_pair ps"
    by (simp add: filter_id_conv urlencoded_pair_nonempty)
  then show ?thesis
    using False
    by (simp add: urlencoded_parse_def split_on_toString parse_pair_urlencoded_pair map_idI)
qed

subsection \<open>The paths through \<open>request\<close>\<close>

lemma request_Resolved_ok:
  assumes "fetch rt (request_url c path queryParams) (fetchOptions rt c method' body) =
             Resolved response"
    and "body_text response = Inr responseText"
    and "ok response"
  shows "request rt c method' path body queryParams =
           Inr \<lparr> success = True, data = Some (responseData rt responseText), error = None \<rparr>"
  using assms by (simp add: request_def request_try_def await_fetch_def)

lemma request_Resolved_failure:
  assumes "fetch rt (request_url c path queryParams) (fetchOptions rt c method' body) =
             Resolved response"
    and "body_text response = Inr responseText"
    and "\<not> ok response"
    and "responseData rt responseText \<noteq> JNull"
  shows "request rt c method' path body queryParams =
           Inr (http_failure response (property (responseData rt responseText) ''error''))"
  using assms by (simp add: request_def request_try_def await_fetch_def member_def)

lemma request_Resolved_null:
  assumes "fetch rt (request_url c path queryParams) (fetchOptions rt c method' body) =
             Resolved response"
    and "body_text response = Inr responseText"
    and "\<not> ok response"
    and "responseData rt responseText = JNull"
  shows "request rt c method' path body queryParams =
           Inr (failure ''connection_error''
             (''Cannot read properties of null (reading '' @ [CHR 0x27] @ ''error'' @
              [CHR 0x27] @ '')''))"
  using assms
  by (simp add: request_def request_try_def await_fetch_def member_def request_catch_def)

text \<open>A failure status with the body \<open>null\<close>: reading \<open>error\<close> of \<open>null\<close> throws
  inside the \<open>try\<close>, and the \<open>catch\<close> clause answers as for a transport fault, with no
  status.\<close>

lemma null_body_outcome:
  "request (sample_runtime (Resolved null_body)) sample_client ''GET'' ''/'' None None =
     Inr \<lparr> success = False, data = None,
           error = Some \<lparr> err_type = JStr ''connection_error'',
                          err_reason = JStr (''Cannot read properties of null (reading '' @
                                             [CHR 0x27] @ ''error'' @ [CHR 0x27] @ '')''),
                          err_status = None \<rparr> \<rparr>"
proof -
  let ?rt = "sample_runtime (Resolved null_body)"
  have 1: "fetch ?rt (request_url sample_client ''/'' None)
             (fetchOptions ?rt sample_client ''GET'' None) = Resolved null_body"
    by (simp add: sample_runtime_def)
  have 2: "body_text null_body = Inr ''null''" and 3: "\<not> ok null_body"
    by (simp_all add: null_body_def)
  have 4: "responseData ?rt ''null'' = JNull"
    by (simp add: responseData_def sample_runtime_def sample_JSON_parse_def)
  show ?thesis
    using request_Resolved_null [OF 1 2 3 4] by (simp add: failure_def)
qed

lemma request_unreadable:
  assumes "fetch rt (request_url c path queryParams) (fetchOptions rt c method' body) =
             Resolved response"
    and "body_text response = Inl e"
  shows "request rt c method' path body queryParams = request_catch c e"
  using assms by (simp add: request_def request_try_def await_fetch_def)

lemma request_Rejected:
  assumes "fetch rt (request_url c path queryParams) (fetchOptions rt c method' body) =
             Rejected e"
  shows "request rt c method' path body queryParams = request_catch c e"
  using assms by (simp add: request_def request_try_def await_fetch_def)

lemma request_Elapsed:
  assumes "fetch rt (request_url c path queryParams) (fetchOptions rt c method' body) = Elapsed"
  shows "request rt c method' path body queryParams =
           Inr (failure ''timeout''
             (''Request timed out after '' @ Number_toString (this_timeout c) @ ''ms''))"
  using assms by (simp add: request_def request_try_def await_fetch_def request_catch_def)

lemma request_catch_returns:
  "\<exists>r i. request_catch c e = Inr r \<and> \<not> success r \<and> data r = None \<and>
         error r = Some i \<and> err_status i = None"
  by (cases e) (auto simp add: request_catch_def failure_def)

lemma new_sample_client: "new_ElasticClient sample_config = Inr sample_client"
  by (simp add: new_ElasticClient_def authorization_def truthy_string_def interpolate_def
      sample_config_def sample_client_def strip_trailing_slash_def)

lemma sample_fetch: "fetch (sample_runtime r) url init = r"
  by (simp add: sample_runtime_def)

lemma request_single_exchange:
  assumes "JSON_parse rt' = JSON_parse rt"
    and "JSON_stringify rt' = JSON_stringify rt"
    and "fetch rt' (request_url c path queryParams) (fetchOptions rt c method' body) =
         fetch rt (request_url c path queryParams) (fetchOptions rt c method' body)"
  shows "request rt' c method' path body queryParams = request rt c method' path body queryParams"
proof -
  have o: "fetchOptions rt' c method' body = fetchOptions rt c method' body"
    using assms(2) by (simp add: fetchOptions_def split: option.splits)
  have d: "responseData rt' = responseData rt"
    using assms(1) by (auto simp add: responseData_def fun_eq_iff)
  show ?thesis
    unfolding request_def request_try_def o d assms(3) ..
qed

lemma request_cases:
  obtains (ok) response responseText where
      "fetch rt (request_url c path queryParams) (fetchOptions rt c method' body) =
         Resolved response"
      "body_text response = Inr responseText" "ok response"
      "request rt c method' path body queryParams =
         Inr \<lparr> success = True, data = Some (responseData rt responseText), error = None \<rparr>"
  | (failed) response responseText where
      "fetch rt (request_url c path queryParams) (fetchOptions rt c method' body) =
         Resolved response"
      "body_text response = Inr responseText" "\<not> ok response"
      "responseData rt responseText \<noteq> JNull"
      "request rt c method' path body queryParams =
         Inr (http_failure response (property (responseData rt responseText) ''error''))"
  | (caught) e where
      "\<forall>response responseText.
          fetch rt (request_url c path queryParams) (fetchOptions rt c method' body) =
            Resolved response \<and>
          body_text response = Inr responseText \<longrightarrow> \<not> ok response"
      "request rt c method' path body queryParams = request_catch c e"
proof (cases "fetch rt (request_url c path queryParams) (fetchOptions rt c method' body)")
  case (Resolved response)
  show ?thesis
  proof (cases "body_text response")
    case (Inl e)
    with Resolved show ?thesis
      using caught [of e] request_unreadable [OF Resolved Inl] by simp
  next
    case (Inr responseText)
    show ?thesis
    proof (cases "ok response")
      case True
      then show ?thesis
        using ok [OF Resolved Inr True] request_Resolved_ok [OF Resolved Inr True] by simp
    next
      case False
      show ?thesis
      proof (cases "responseData rt responseText = JNull")
        case True
        have "request rt c method' path body queryParams =
                request_catch c (JsError ''TypeError''
                  (''Cannot read properties of null (reading '' @ [CHR 0x27] @ ''error'' @
                   [CHR 0x27] @ '')''))"
          using request_Resolved_null [OF Resolved Inr False True]
          by (simp add: request_catch_def)
        then show ?thesis
          using caught Resolved Inr False by simp
      next
        case notnull: False
        show ?thesis
          using failed [OF Resolved Inr False notnull]
            request_Resolved_failure [OF Resolved Inr False notnull] by simp
      qed
    qed
  qed
next
  case (Rejected e)
  then show ?thesis
    using caught [of e] request_Rejected [OF Rejected] by simp
next
  case Elapsed
  have "request rt c method' path body queryParams =
          request_catch c (JsError ''AbortError'' ''This operation was aborted'')"
    using request_Elapsed [OF Elapsed] by (simp add: request_catch_def)
  then show ?thesis
    using caught Elapsed by simp
qed

lemma request_shape:
  "\<exists>r. request rt c method' path body queryParams = Inr r \<and> exactly_one_variant r \<and>
       success r =
         (\<exists>response responseText.
            fetch rt (request_url c path queryParams) (fetchOptions rt c method' body) =
              Resolved response \<and>
            body_text response = Inr responseText \<and> ok response) \<and>
       (\<forall>n. status_of r = Some n \<longrightarrow>
          (\<exists>response.
             fetch rt (request_url c path queryParams) (fetchOptions rt c method' body) =
               Resolved response \<and>
             \<not> ok response \<and> n = status response))"
proof (cases rule: request_cases [of rt c path queryParams method' body])
  case (ok response responseText)
  then show ?thesis
    by (auto simp add: exactly_one_variant_def status_of_def)
next
  case (failed response responseText)
  then show ?thesis
    by (auto simp add: exactly_one_variant_def status_of_def http_failure_def)
next
  case (caught e)
  obtain r i where "request_catch c e = Inr r" "\<not> success r" "data r = None"
      "error r = Some i" "err_status i = None"
    using request_catch_returns [of c e] by blast
  with caught show ?thesis
    by (auto simp add: exactly_one_variant_def status_of_def)
qed

lemma request_shape_status:
  "\<exists>r. request rt c method' path body queryParams = Inr r \<and> exactly_one_variant r \<and>
       (\<forall>n. status_of r = Some n \<longrightarrow>
          (\<exists>response.
             fetch rt (request_url c path queryParams) (fetchOptions rt c method' body) =
               Resolved response \<and>
             \<not> ok response \<and> n = status response))"
  using request_shape [of rt c method' path body queryParams] by blast

lemma get_not_found:
  "get (sample_runtime (Resolved not_found)) sample_client ''/nonexistent'' None =
     Inr not_found_outcome"
proof -
  let ?rt = "sample_runtime (Resolved not_found)"
  have 1: "fetch ?rt (request_url sample_client ''/nonexistent'' None)
             (fetchOptions ?rt sample_client ''GET'' None) = Resolved not_found"
    by (rule sample_fetch)
  have 2: "body_text not_found = Inr not_found_body" and 3: "\<not> ok not_found"
    and 6: "status not_found = 404" and 7: "statusText not_found = ''Not Found''"
    by (simp_all add: not_found_def)
  have 4: "responseData ?rt not_found_body =
             JObj [(''error'', JObj [(''type'', JStr ''index_not_found_exception''),
                                     (''reason'', JStr ''no such index'')])]"
    by (simp add: responseData_def sample_runtime_def sample_JSON_parse_def not_found_body_def)
  have 5: "responseData ?rt not_found_body \<noteq> JNull"
    by (simp add: 4)
  show ?thesis
    unfolding get_def
    using request_Resolved_failure [OF 1 2 3 5]
    by (simp add: 4 6 7 http_failure_def js_or_def optional_member_def not_found_outcome_def)
qed

subsection \<open>Construction\<close>

lemma authorization_cases:
  "authorization config = Inl e \<Longrightarrow>
     e = no_credentials \<and> \<not> truthy_string (apiKeyEncoded config) \<and>
     \<not> (truthy_string (apiKeyId config) \<and> truthy_string (apiKeySecret config)) \<and>
     \<not> (truthy_string (username config) \<and> truthy_string (password config))"
  by (auto simp add: authorization_def split: if_splits)

lemma new_ElasticClient_Inl:
  "new_ElasticClient config = Inl e \<Longrightarrow> authorization config = Inl e"
  by (simp add: new_ElasticClient_def split: sum.splits)

lemma new_bare_config: "new_ElasticClient bare_config = Inl no_credentials"
  by (simp add: new_ElasticClient_def authorization_def truthy_string_def bare_config_def)

lemma base64_test_id: "base64 ''test-id:test-secret'' = ''dGVzdC1pZDp0ZXN0LXNlY3JldA==''"
  by (simp add: base64_def base64_char_def)

lemma base64_elastic: "base64 ''elastic:password'' = ''ZWxhc3RpYzpwYXNzd29yZA==''"
  by (simp add: base64_def base64_char_def)

lemma strip_trailing_slash_snoc: "strip_trailing_slash (b @ ''/'') = b"
  by (simp add: strip_trailing_slash_def)

lemma new_ElasticClient_baseUrl:
  "new_ElasticClient config = Inr c \<Longrightarrow> baseUrl c = strip_trailing_slash (elasticUrl config)"
  by (auto simp add: new_ElasticClient_def split: sum.splits)

lemma new_slash_client: "new_ElasticClient slash_config = Inr sample_client"
  by (simp add: new_ElasticClient_def authorization_def truthy_string_def interpolate_def
      slash_config_def sample_client_def strip_trailing_slash_def)

subsection \<open>The alphabet of a query string\<close>

lemma hex_digit_safe: "n < 16 \<Longrightarrow> urlencoded_safe (hex_digit n)"
  by (auto simp add: eval_nat_numeral less_Suc_eq hex_digit_def urlencoded_safe_def)

lemma urlencoded_byte_alphabet:
  "x \<in> set (urlencoded_byte c) \<Longrightarrow> urlencoded_safe x \<or> x = CHR ''%'' \<or> x = CHR ''+''"
  using hex_digit_safe [of "(of_char c :: nat) div 16"]
    hex_digit_safe [of "(of_char c :: nat) mod 16"] hex_digit_div [of c]
  by (auto simp add: urlencoded_byte_def split: if_splits)

lemma urlencoded_string_alphabet:
  "x \<in> set (urlencoded_string s) \<Longrightarrow> urlencoded_safe x \<or> x = CHR ''%'' \<or> x = CHR ''+''"
  using urlencoded_byte_alphabet by (auto simp add: urlencoded_string_def)

lemma toString_alphabet:
  "x \<in> set (URLSearchParams_toString ps) \<Longrightarrow>
     urlencoded_safe x \<or> x = CHR ''%'' \<or> x = CHR ''+'' \<or> x = CHR ''='' \<or> x = CHR ''&''"
proof (induction ps rule: URLSearchParams_toString.induct)
  case 1
  then show ?case by simp
next
  case (2 p)
  then show ?case
    using urlencoded_string_alphabet by (auto simp add: urlencoded_pair_def)
next
  case (3 p q ps)
  then show ?case
    using urlencoded_string_alphabet by (auto simp add: urlencoded_pair_def)
qed

lemma cat_indices_url:
  "request_url sample_client ''/_cat/indices''
     (Some [(''format'', QStr ''json''), (''h'', QStr ''index,health'')]) =
   ''https://test.elastic.cloud/_cat/indices?format=json&h=index%2Chealth''"
  by (simp add: request_url_def sample_client_def urlencoded_pair_def urlencoded_string_def
      urlencoded_byte_def urlencoded_safe_def hex_digit_def)

lemma explain_url:
  "request_url sample_client ''/_cluster/allocation/explain'' (Some explain_params) =
   ''https://test.elastic.cloud/_cluster/allocation/explain?index=my+logs&shard=12&primary=true&offset=-7&boost=1.5''"
  by (simp add: request_url_def sample_client_def explain_params_def urlencoded_pair_def
      urlencoded_string_def urlencoded_byte_def urlencoded_safe_def hex_digit_def
      string_of_nat_small string_of_nat_big digit_char_def)

section \<open>The claims\<close>

text \<open>
  C1 (as amended). When the exchange completes with a failure status and the decoded body
  is not \<open>null\<close>, the outcome is a Failure that always carries the numeric status code.
  Its kind is the \<open>type\<close> of the body's \<open>error\<close> descriptor when that is truthy and
  \<open>request_error\<close> otherwise; its reason is the descriptor's \<open>reason\<close> when that is
  truthy, otherwise the status text when that is not empty, otherwise \<open>Request failed\<close>.
  Kind and reason fall back independently of each other.
\<close>

theorem http_failure_outcome:
  assumes "fetch rt (request_url c path queryParams) (fetchOptions rt c method' body) =
             Resolved response"
    and "body_text response = Inr responseText"
    and "\<not> ok response"
    and "responseData rt responseText \<noteq> JNull"
  shows "\<exists>kind why.
           request rt c method' path body queryParams =
             Inr \<lparr> success = False, data = None,
                   error = Some \<lparr> err_type = kind, err_reason = why,
                                  err_status = Some (status response) \<rparr> \<rparr>
           \<and> kind =
               (case optional_member (property (responseData rt responseText) ''error'') ''type'' of
                  Some t \<Rightarrow> if truthy t then t else JStr ''request_error''
                | None \<Rightarrow> JStr ''request_error'')
           \<and> why =
               (case optional_member (property (responseData rt responseText) ''error'') ''reason'' of
                  Some r \<Rightarrow>
                    if truthy r then r
                    else if statusText response \<noteq> [] then JStr (statusText response)
                    else JStr ''Request failed''
                | None \<Rightarrow>
                    if statusText response \<noteq> [] then JStr (statusText response)
                    else JStr ''Request failed'')"
  using request_Resolved_failure [OF assms]
  by (simp add: http_failure_def js_or_def split: option.splits)

text \<open>The example of the test suite: a \<open>404\<close> whose body names
  \<open>index_not_found_exception\<close>.\<close>

theorem http_failure_outcome_witness:
  "request (sample_runtime (Resolved not_found)) sample_client ''GET'' ''/nonexistent'' None None =
     Inr \<lparr> success = False, data = None,
           error = Some \<lparr> err_type = JStr ''index_not_found_exception'',
                          err_reason = JStr ''no such index'', err_status = Some 404 \<rparr> \<rparr>"
proof -
  let ?rt = "sample_runtime (Resolved not_found)"
  have 1: "fetch ?rt (request_url sample_client ''/nonexistent'' None)
             (fetchOptions ?rt sample_client ''GET'' None) = Resolved not_found"
    by (rule sample_fetch)
  have 2: "body_text not_found = Inr not_found_body"
    by (simp add: not_found_def)
  have 3: "\<not> ok not_found"
    by (simp add: not_found_def)
  have 4: "responseData ?rt not_found_body =
             JObj [(''error'', JObj [(''type'', JStr ''index_not_found_exception''),
                                     (''reason'', JStr ''no such index'')])]"
    by (simp add: responseData_def sample_runtime_def sample_JSON_parse_def not_found_body_def)
  have 5: "responseData ?rt not_found_body \<noteq> JNull"
    by (simp add: 4)
  have 6: "status not_found = 404"
    by (simp add: not_found_def)
  show ?thesis
    using http_failure_outcome [OF 1 2 3 5]
    by (simp add: 4 6 optional_member_def)
qed

text \<open>C1 as stated fails: a failure status with no error descriptor in the body and an
  empty status text gives the reason \<open>Request failed\<close>, which is not the status text.\<close>

theorem http_failure_reason_counterexample:
  "request (sample_runtime (Resolved unavailable)) sample_client ''GET'' ''/'' None None =
     Inr \<lparr> success = False, data = None,
           error = Some \<lparr> err_type = JStr ''request_error'',
                          err_reason = JStr ''Request failed'', err_status = Some 503 \<rparr> \<rparr>
   \<and> property (responseData (sample_runtime (Resolved unavailable)) '''') ''error'' = None
   \<and> JStr ''Request failed'' \<noteq> JStr (statusText unavailable)"
proof -
  let ?rt = "sample_runtime (Resolved unavailable)"
  have 1: "fetch ?rt (request_url sample_client ''/'' None)
             (fetchOptions ?rt sample_client ''GET'' None) = Resolved unavailable"
    by (rule sample_fetch)
  have 2: "body_text unavailable = Inr ''''"
    by (simp add: unavailable_def)
  have 3: "\<not> ok unavailable"
    by (simp add: unavailable_def)
  have 4: "responseData ?rt '''' = JObj []"
    by (simp add: responseData_def)
  have 5: "responseData ?rt '''' \<noteq> JNull"
    by (simp add: 4)
  have 6: "statusText unavailable = ''''" and 7: "status unavailable = 503"
    by (simp_all add: unavailable_def)
  have "request ?rt sample_client ''GET'' ''/'' None None =
          Inr (http_failure unavailable (property (responseData ?rt '''') ''error''))"
    by (rule request_Resolved_failure [OF 1 2 3 5])
  then show ?thesis
    by (simp add: 4 6 7 http_failure_def js_or_def optional_member_def)
qed

text \<open>
  C2 (as amended). Request execution never raises, whatever the input, the platform and
  the remote service do: it returns an outcome, and the outcome is a Success exactly when
  the exchange completed with a success status and a readable body. So failure statuses,
  transport-level faults and timeouts give a returned Failure; a malformed or non-JSON
  body does not raise either and does not decide the variant. The only value the
  constructor throws is the authentication error, and it throws it only for a
  configuration in which no credential source is populated.
\<close>

theorem request_never_raises:
  "(\<exists>r. request rt c method' path body queryParams = Inr r \<and>
        success r =
          (\<exists>response responseText.
             fetch rt (request_url c path queryParams) (fetchOptions rt c method' body) =
               Resolved response \<and>
             body_text response = Inr responseText \<and> ok response))
   \<and> (new_ElasticClient config = Inl e \<longrightarrow>
        e = no_credentials \<and> \<not> truthy_string (apiKeyEncoded config) \<and>
        \<not> (truthy_string (apiKeyId config) \<and> truthy_string (apiKeySecret config)) \<and>
        \<not> (truthy_string (username config) \<and> truthy_string (password config)))"
proof
  show "\<exists>r. request rt c method' path body queryParams = Inr r \<and>
        success r =
          (\<exists>response responseText.
             fetch rt (request_url c path queryParams) (fetchOptions rt c method' body) =
               Resolved response \<and>
             body_text response = Inr responseText \<and> ok response)"
    using request_shape [of rt c method' path body queryParams] by blast
next
  show "new_ElasticClient config = Inl e \<longrightarrow>
        e = no_credentials \<and> \<not> truthy_string (apiKeyEncoded config) \<and>
        \<not> (truthy_string (apiKeyId config) \<and> truthy_string (apiKeySecret config)) \<and>
        \<not> (truthy_string (username config) \<and> truthy_string (password config))"
    using authorization_cases [of config e] new_ElasticClient_Inl [of config e] by blast
qed

text \<open>A refused connection is returned as a Failure, and the configuration without
  credentials is the one the constructor throws for.\<close>

theorem request_never_raises_witness:
  "(\<exists>r. request (sample_runtime (Rejected (JsError ''TypeError'' ''fetch failed'')))
           sample_client ''GET'' ''/'' None None = Inr r \<and> \<not> success r)
   \<and> new_ElasticClient bare_config = Inl no_credentials
   \<and> \<not> truthy_string (apiKeyEncoded bare_config)
   \<and> \<not> (truthy_string (apiKeyId bare_config) \<and> truthy_string (apiKeySecret bare_config))
   \<and> \<not> (truthy_string (username bare_config) \<and> truthy_string (password bare_config))"
  using request_never_raises
    [of "sample_runtime (Rejected (JsError ''TypeError'' ''fetch failed''))" sample_client
        "''GET''" "''/''" None None bare_config no_credentials]
    new_bare_config
  by (simp add: sample_fetch)

text \<open>C2 as stated fails: a body that is not JSON, received with a success status, does
  not become a Failure. The outcome is a Success that carries the raw text.\<close>

theorem malformed_body_counterexample:
  "request (sample_runtime (Resolved html_page)) sample_client ''GET'' ''/'' None None =
     Inr \<lparr> success = True, data = Some (JObj [(''raw'', JStr ''<html>'')]), error = None \<rparr>
   \<and> JSON_parse (sample_runtime (Resolved html_page)) ''<html>'' = None"
proof -
  let ?rt = "sample_runtime (Resolved html_page)"
  have 1: "fetch ?rt (request_url sample_client ''/'' None)
             (fetchOptions ?rt sample_client ''GET'' None) = Resolved html_page"
    by (rule sample_fetch)
  have 2: "body_text html_page = Inr ''<html>''" and 3: "ok html_page"
    by (simp_all add: html_page_def)
  have 4: "JSON_parse ?rt ''<html>'' = None"
    by (simp add: sample_runtime_def sample_JSON_parse_def)
  show ?thesis
    using request_Resolved_ok [OF 1 2 3] 4 by (simp add: responseData_def)
qed

text \<open>
  C3 (as amended). When the exchange completes with a success status, the outcome is a
  Success. It carries the empty object when the body text is empty, the JSON-decoded body
  when the text is not empty and decodes, and the wrapper \<open>{ raw: text }\<close> when the text
  is not empty and does not decode. Decoding never raises.
\<close>

theorem success_outcome:
  assumes "fetch rt (request_url c path queryParams) (fetchOptions rt c method' body) =
             Resolved response"
    and "body_text response = Inr responseText"
    and "ok response"
  shows "request rt c method' path body queryParams =
           Inr \<lparr> success = True,
                 data = Some (if responseText = [] then JObj []
                              else case JSON_parse rt responseText of
                                     Some v \<Rightarrow> v
                                   | None \<Rightarrow> JObj [(''raw'', JStr responseText)]),
                 error = None \<rparr>"
  using request_Resolved_ok [OF assms] by (simp add: responseData_def)

text \<open>The read of the service root of the test suite.\<close>

theorem success_outcome_witness:
  "request (sample_runtime (Resolved root_info)) sample_client ''GET'' ''/'' None None =
     Inr \<lparr> success = True, data = Some (JObj [(''cluster_name'', JStr ''test'')]),
           error = None \<rparr>"
proof -
  let ?rt = "sample_runtime (Resolved root_info)"
  have 1: "fetch ?rt (request_url sample_client ''/'' None)
             (fetchOptions ?rt sample_client ''GET'' None) = Resolved root_info"
    by (rule sample_fetch)
  have 2: "body_text root_info = Inr ''{\"cluster_name\":\"test\"}''" and 3: "ok root_info"
    by (simp_all add: root_info_def)
  have 4: "JSON_parse ?rt ''{\"cluster_name\":\"test\"}'' =
             Some (JObj [(''cluster_name'', JStr ''test'')])"
    by (simp add: sample_runtime_def sample_JSON_parse_def)
  show ?thesis
    using success_outcome [OF 1 2 3] by (simp add: 4)
qed

text \<open>C3 as stated fails: the empty text does not decode as JSON, and the Success carries
  the empty object, not the wrapper around the raw text.\<close>

theorem empty_body_counterexample:
  "request (sample_runtime (Resolved no_content)) sample_client ''GET'' ''/'' None None =
     Inr \<lparr> success = True, data = Some (JObj []), error = None \<rparr>
   \<and> JSON_parse (sample_runtime (Resolved no_content)) '''' = None
   \<and> JObj [] \<noteq> JObj [(''raw'', JStr '''')]"
proof -
  let ?rt = "sample_runtime (Resolved no_content)"
  have 1: "fetch ?rt (request_url sample_client ''/'' None)
             (fetchOptions ?rt sample_client ''GET'' None) = Resolved no_content"
    by (rule sample_fetch)
  have 2: "body_text no_content = Inr ''''" and 3: "ok no_content"
    by (simp_all add: no_content_def)
  have 4: "JSON_parse ?rt '''' = None"
    by (simp add: sample_runtime_def sample_JSON_parse_def)
  show ?thesis
    using request_Resolved_ok [OF 1 2 3] 4 by (simp add: responseData_def)
qed

text \<open>
  C4. Construction resolves the credential by first match: a populated pre-encoded key is
  used verbatim after \<open>ApiKey\<close>; else a populated id and secret pair gives \<open>ApiKey\<close> and
  the base64 text of \<open>id:secret\<close>; else a populated user name and password pair gives
  \<open>Basic\<close> and the base64 text of \<open>username:password\<close>; with none of the three
  construction fails with the authentication error, and with any of them (so with
  exactly one) it succeeds. Populated means present and not empty. Construction takes no
  platform and no network: it is a function of the configuration alone.
\<close>

theorem authentication_precedence:
  "(apiKeyEncoded config = Some k \<and> k \<noteq> [] \<longrightarrow>
      (\<exists>c. new_ElasticClient config = Inr c \<and>
           map_of (headers c) ''Authorization'' = Some (''ApiKey '' @ k)))
   \<and> (\<not> truthy_string (apiKeyEncoded config) \<and>
        apiKeyId config = Some i \<and> i \<noteq> [] \<and> apiKeySecret config = Some s \<and> s \<noteq> [] \<longrightarrow>
      (\<exists>c. new_ElasticClient config = Inr c \<and>
           map_of (headers c) ''Authorization'' = Some (''ApiKey '' @ base64 (i @ '':'' @ s))))
   \<and> (\<not> truthy_string (apiKeyEncoded config) \<and>
        \<not> (truthy_string (apiKeyId config) \<and> truthy_string (apiKeySecret config)) \<and>
        username config = Some u \<and> u \<noteq> [] \<and> password config = Some p \<and> p \<noteq> [] \<longrightarrow>
      (\<exists>c. new_ElasticClient config = Inr c \<and>
           map_of (headers c) ''Authorization'' = Some (''Basic '' @ base64 (u @ '':'' @ p))))
   \<and> (\<not> truthy_string (apiKeyEncoded config) \<and>
        \<not> (truthy_string (apiKeyId config) \<and> truthy_string (apiKeySecret config)) \<and>
        \<not> (truthy_string (username config) \<and> truthy_string (password config)) \<longrightarrow>
      new_ElasticClient config = Inl no_credentials)
   \<and> (truthy_string (apiKeyEncoded config) \<or>
        truthy_string (apiKeyId config) \<and> truthy_string (apiKeySecret config) \<or>
        truthy_string (username config) \<and> truthy_string (password config) \<longrightarrow>
      (\<exists>c. new_ElasticClient config = Inr c))"
  by (auto simp add: new_ElasticClient_def authorization_def truthy_string_def interpolate_def
      split: option.splits sum.splits)

text \<open>One configuration for each of the four branches; the first two have more than
  one source, and the earlier one wins.\<close>

theorem authentication_precedence_witness:
  "(\<exists>c. new_ElasticClient all_sources_config = Inr c \<and>
        map_of (headers c) ''Authorization'' = Some ''ApiKey dGVzdC1lbmNvZGVkLWtleQ=='')
   \<and> (\<exists>c. new_ElasticClient id_secret_config = Inr c \<and>
        map_of (headers c) ''Authorization'' = Some ''ApiKey dGVzdC1pZDp0ZXN0LXNlY3JldA=='')
   \<and> (\<exists>c. new_ElasticClient basic_config = Inr c \<and>
        map_of (headers c) ''Authorization'' = Some ''Basic ZWxhc3RpYzpwYXNzd29yZA=='')
   \<and> new_ElasticClient bare_config = Inl no_credentials"
proof -
  have 1: "\<exists>c. new_ElasticClient all_sources_config = Inr c \<and>
        map_of (headers c) ''Authorization'' = Some ''ApiKey dGVzdC1lbmNvZGVkLWtleQ==''"
    using authentication_precedence [of all_sources_config "''dGVzdC1lbmNvZGVkLWtleQ==''"]
    by (simp add: all_sources_config_def)
  have 2: "\<exists>c. new_ElasticClient id_secret_config = Inr c \<and>
        map_of (headers c) ''Authorization'' = Some ''ApiKey dGVzdC1pZDp0ZXN0LXNlY3JldA==''"
    using authentication_precedence [of id_secret_config _ "''test-id''" "''test-secret''"]
      base64_test_id
    by (simp add: id_secret_config_def truthy_string_def)
  have 3: "\<exists>c. new_ElasticClient basic_config = Inr c \<and>
        map_of (headers c) ''Authorization'' = Some ''Basic ZWxhc3RpYzpwYXNzd29yZA==''"
    using authentication_precedence [of basic_config _ _ _ "''elastic''" "''password''"]
      base64_elastic
    by (simp add: basic_config_def truthy_string_def)
  have 4: "new_ElasticClient bare_config = Inl no_credentials"
    using authentication_precedence [of bare_config]
    by (simp add: bare_config_def truthy_string_def)
  from 1 2 3 4 show ?thesis by blast
qed

text \<open>
  C5 (as amended). The exchange is issued with the signal of a countdown set to the
  configured timeout. When that timeout is a whole number of milliseconds from 1 to
  2147483647, the countdown lasts that long: an exchange that has not settled when the
  countdown elapses is cancelled, and the outcome is a Failure of kind \<open>timeout\<close> whose
  reason is \<open>Request timed out after\<close>, the decimal of the configured timeout, and
  \<open>ms\<close>, while an exchange that settles before is not cancelled. For every configured
  timeout, an exchange that the countdown cancels (or that is rejected with an
  \<open>AbortError\<close>) gives the Failure of kind \<open>timeout\<close> whose reason holds the timeout as
  the platform prints it.
\<close>

theorem timeout_outcome:
  assumes "new_ElasticClient config = Inr c"
  shows "opt_signal (fetchOptions rt c method' body) = timeout config
         \<and> (fetch rt (request_url c path queryParams) (fetchOptions rt c method' body) = Elapsed \<or>
             fetch rt (request_url c path queryParams) (fetchOptions rt c method' body) =
               Rejected (JsError ''AbortError'' message') \<longrightarrow>
             request rt c method' path body queryParams =
               Inr \<lparr> success = False, data = None,
                     error = Some \<lparr> err_type = JStr ''timeout'',
                                    err_reason = JStr (''Request timed out after '' @
                                                       Number_toString (timeout config) @ ''ms''),
                                    err_status = None \<rparr> \<rparr>)
         \<and> (fetch rt = fetch_with_signal network \<and> timeout config = Integer False m \<and>
             1 \<le> unat m \<and> unat m \<le> 2147483647 \<longrightarrow>
             setTimeout_delay (opt_signal (fetchOptions rt c method' body)) = unat m
             \<and> (network (request_url c path queryParams) (fetchOptions rt c method' body) = Never \<or>
                 network (request_url c path queryParams) (fetchOptions rt c method' body) =
                   Settles t s \<and> unat m \<le> t \<longrightarrow>
                 request rt c method' path body queryParams =
                   Inr \<lparr> success = False, data = None,
                         error = Some \<lparr> err_type = JStr ''timeout'',
                                        err_reason = JStr (''Request timed out after '' @
                                                           string_of_nat (unat m) @ ''ms''),
                                        err_status = None \<rparr> \<rparr>)
             \<and> (network (request_url c path queryParams) (fetchOptions rt c method' body) =
                   Settles t (Resolves response) \<and> t < unat m \<and>
                 ok response \<and> body_text response = Inr responseText \<longrightarrow>
                 request rt c method' path body queryParams =
                   Inr \<lparr> success = True, data = Some (responseData rt responseText),
                         error = None \<rparr>)
             \<and> (network (request_url c path queryParams) (fetchOptions rt c method' body) =
                   Settles t (Rejects e) \<and> t < unat m \<longrightarrow>
                 request rt c method' path body queryParams = request_catch c e)
             \<and> decimal_of (unat m) (string_of_nat (unat m)))"
proof -
  let ?url = "request_url c path queryParams"
  let ?init = "fetchOptions rt c method' body"
  have t: "this_timeout c = timeout config"
    using assms by (auto simp add: new_ElasticClient_def split: sum.splits)
  have s: "opt_signal ?init = timeout config"
    using t by (simp add: fetchOptions_def)
  have a: "request rt c method' path body queryParams =
             Inr (failure ''timeout''
               (''Request timed out after '' @ Number_toString (timeout config) @ ''ms''))"
    if "fetch rt ?url ?init = Elapsed \<or> fetch rt ?url ?init = Rejected (JsError ''AbortError'' msg)"
    for msg
    using that
  proof
    assume "fetch rt ?url ?init = Elapsed"
    then show ?thesis
      using request_Elapsed [of rt c path queryParams method' body] t by simp
  next
    assume "fetch rt ?url ?init = Rejected (JsError ''AbortError'' msg)"
    then show ?thesis
      using request_Rejected [of rt c path queryParams method' body] t
      by (simp add: request_catch_def)
  qed
  have b: "setTimeout_delay (opt_signal ?init) = unat m
           \<and> (network ?url ?init = Never \<or> network ?url ?init = Settles t s \<and> unat m \<le> t \<longrightarrow>
               request rt c method' path body queryParams =
                 Inr (failure ''timeout''
                   (''Request timed out after '' @ string_of_nat (unat m) @ ''ms'')))
           \<and> (network ?url ?init = Settles t (Resolves response) \<and> t < unat m \<and>
               ok response \<and> body_text response = Inr responseText \<longrightarrow>
               request rt c method' path body queryParams =
                 Inr \<lparr> success = True, data = Some (responseData rt responseText),
                       error = None \<rparr>)
           \<and> (network ?url ?init = Settles t (Rejects e) \<and> t < unat m \<longrightarrow>
               request rt c method' path body queryParams = request_catch c e)"
    if f: "fetch rt = fetch_with_signal network" and m: "timeout config = Integer False m"
      and r: "1 \<le> unat m" "unat m \<le> 2147483647"
  proof -
    have d: "setTimeout_delay (opt_signal ?init) = unat m"
      using s m r by (simp add: setTimeout_delay_def)
    have n: "Number_toString (timeout config) = string_of_nat (unat m)"
      using m by simp
    have 1: "request rt c method' path body queryParams =
               Inr (failure ''timeout''
                 (''Request timed out after '' @ string_of_nat (unat m) @ ''ms''))"
      if "network ?url ?init = Never \<or> network ?url ?init = Settles t s \<and> unat m \<le> t"
    proof -
      have "fetch rt ?url ?init = Elapsed"
        using that f d by (auto simp add: fetch_with_signal_def)
      then show ?thesis
        using a [of "[]"] n by simp
    qed
    have 2: "request rt c method' path body queryParams =
               Inr \<lparr> success = True, data = Some (responseData rt responseText), error = None \<rparr>"
      if "network ?url ?init = Settles t (Resolves response) \<and> t < unat m \<and>
          ok response \<and> body_text response = Inr responseText"
    proof -
      have "fetch rt ?url ?init = Resolved response"
        using that f d by (simp add: fetch_with_signal_def)
      then show ?thesis
        using that request_Resolved_ok [of rt c path queryParams method' body response responseText]
        by simp
    qed
    have 3: "request rt c method' path body queryParams = request_catch c e"
      if "network ?url ?init = Settles t (Rejects e) \<and> t < unat m"
    proof -
      have "fetch rt ?url ?init = Rejected e"
        using that f d by (simp add: fetch_with_signal_def)
      then show ?thesis
        by (rule request_Rejected)
    qed
    from d 1 2 3 show ?thesis
      by blast
  qed
  from s a b show ?thesis
    by (simp add: failure_def decimal_of_string_of_nat)
qed

text \<open>The client of the test suite, whose timeout is 30000 ms: on a network on which
  nothing answers the outcome is the Failure of kind \<open>timeout\<close>, and the answer of the
  sixth millisecond is returned.\<close>

theorem timeout_outcome_witness:
  "setTimeout_delay (opt_signal (fetchOptions (timed_runtime silent_network) sample_client ''GET'' None)) =
     30000
   \<and> request (timed_runtime silent_network) sample_client ''GET'' ''/'' None None =
       Inr \<lparr> success = False, data = None,
             error = Some \<lparr> err_type = JStr ''timeout'',
                            err_reason = JStr ''Request timed out after 30000ms'',
                            err_status = None \<rparr> \<rparr>
   \<and> request (timed_runtime quick_network) sample_client ''GET'' ''/'' None None =
       Inr \<lparr> success = True, data = Some (JObj [(''cluster_name'', JStr ''test'')]),
             error = None \<rparr>
   \<and> decimal_of 30000 ''30000''"
proof -
  have c: "timeout sample_config = Integer False 30000"
    by (simp add: sample_config_def)
  have r: "1 \<le> unat (30000 :: 53 word)" "unat (30000 :: 53 word) \<le> 2147483647"
    by simp_all
  have u: "unat (30000 :: 53 word) = 30000"
    by simp
  have n: "string_of_nat 30000 = ''30000''"
    by (simp add: string_of_nat_small string_of_nat_big digit_char_def)
  have fs: "fetch (timed_runtime silent_network) = fetch_with_signal silent_network"
    and fq: "fetch (timed_runtime quick_network) = fetch_with_signal quick_network"
    by (simp_all add: timed_runtime_def)
  have ns: "silent_network (request_url sample_client ''/'' None)
              (fetchOptions (timed_runtime silent_network) sample_client ''GET'' None) = Never"
    by (simp add: silent_network_def)
  have nq: "quick_network (request_url sample_client ''/'' None)
              (fetchOptions (timed_runtime quick_network) sample_client ''GET'' None) =
            Settles 5 (Resolves root_info)"
    by (simp add: quick_network_def)
  have i: "ok root_info" "body_text root_info = Inr ''{\"cluster_name\":\"test\"}''"
    by (simp_all add: root_info_def)
  have d: "responseData (timed_runtime quick_network) ''{\"cluster_name\":\"test\"}'' =
             JObj [(''cluster_name'', JStr ''test'')]"
    by (simp add: responseData_def timed_runtime_def sample_JSON_parse_def)
  note s = timeout_outcome [OF new_sample_client, of "timed_runtime silent_network" "''GET''" None
      "''/''" None _ silent_network "30000" _ _ _ _ _, THEN conjunct2, THEN conjunct2, rule_format,
      OF conjI [OF fs conjI [OF c conjI [OF r]]]]
  note q = timeout_outcome [OF new_sample_client, of "timed_runtime quick_network" "''GET''" None
      "''/''" None _ quick_network "30000" 5 _ root_info "''{\"cluster_name\":\"test\"}''" _,
      THEN conjunct2, THEN conjunct2, rule_format, OF conjI [OF fq conjI [OF c conjI [OF r]]]]
  have 1: "setTimeout_delay (opt_signal (fetchOptions (timed_runtime silent_network) sample_client
             ''GET'' None)) = 30000"
    using s u by simp
  have 2: "request (timed_runtime silent_network) sample_client ''GET'' ''/'' None None =
       Inr \<lparr> success = False, data = None,
             error = Some \<lparr> err_type = JStr ''timeout'',
                            err_reason = JStr ''Request timed out after 30000ms'',
                            err_status = None \<rparr> \<rparr>"
    using s ns u n by simp
  have 3: "request (timed_runtime quick_network) sample_client ''GET'' ''/'' None None =
       Inr \<lparr> success = True, data = Some (JObj [(''cluster_name'', JStr ''test'')]),
             error = None \<rparr>"
    using q nq i u d by simp
  have 4: "decimal_of 30000 ''30000''"
    using s u n by simp
  from 1 2 3 4 show ?thesis
    by blast
qed

text \<open>C5 as stated fails: with a configured timeout of 3000000000 ms the countdown lasts
  1 ms, because the client hands the timeout to \<open>setTimeout\<close> as it is and the platform
  sets a delay above 2147483647 to 1. The exchange that would have been answered in the
  sixth millisecond is cancelled, long before the configured timeout has passed.\<close>

theorem timer_range_counterexample:
  "new_ElasticClient long_config = Inr long_client
   \<and> setTimeout_delay (opt_signal (fetchOptions (timed_runtime quick_network) long_client ''GET'' None)) = 1
   \<and> quick_network (request_url long_client ''/'' None)
        (fetchOptions (timed_runtime quick_network) long_client ''GET'' None) =
      Settles 5 (Resolves root_info)
   \<and> request (timed_runtime quick_network) long_client ''GET'' ''/'' None None =
       Inr \<lparr> success = False, data = None,
             error = Some \<lparr> err_type = JStr ''timeout'',
                            err_reason = JStr ''Request timed out after 3000000000ms'',
                            err_status = None \<rparr> \<rparr>"
proof -
  let ?rt = "timed_runtime quick_network"
  have 1: "new_ElasticClient long_config = Inr long_client"
    by (simp add: new_ElasticClient_def authorization_def truthy_string_def interpolate_def
        long_config_def long_client_def strip_trailing_slash_def)
  have 2: "setTimeout_delay (opt_signal (fetchOptions ?rt long_client ''GET'' None)) = 1"
    by (simp add: fetchOptions_def long_client_def setTimeout_delay_def)
  have 3: "quick_network (request_url long_client ''/'' None)
             (fetchOptions ?rt long_client ''GET'' None) = Settles 5 (Resolves root_info)"
    by (simp add: quick_network_def)
  have "fetch ?rt (request_url long_client ''/'' None) (fetchOptions ?rt long_client ''GET'' None) =
          Elapsed"
    using 2 by (simp add: timed_runtime_def fetch_with_signal_def quick_network_def)
  then have "request ?rt long_client ''GET'' ''/'' None None =
          Inr (failure ''timeout''
            (''Request timed out after '' @ Number_toString (this_timeout long_client) @ ''ms''))"
    by (rule request_Elapsed)
  moreover have "Number_toString (this_timeout long_client) = ''3000000000''"
    by (simp add: long_client_def string_of_nat_small string_of_nat_big digit_char_def)
  ultimately have 4: "request ?rt long_client ''GET'' ''/'' None None =
       Inr \<lparr> success = False, data = None,
             error = Some \<lparr> err_type = JStr ''timeout'',
                            err_reason = JStr ''Request timed out after 3000000000ms'',
                            err_status = None \<rparr> \<rparr>"
    by (simp add: failure_def)
  from 1 2 3 4 show ?thesis
    by blast
qed

text \<open>
  C6. When the exchange fails with a transport-level fault, so that no response is
  obtained, the outcome is a Failure of kind \<open>connection_error\<close> whose reason is the
  message of the fault. A transport-level fault is an \<open>Error\<close> that \<open>fetch\<close> rejects
  with and that is not the \<open>AbortError\<close> of the client's own cancellation.
\<close>

theorem connection_error_outcome:
  assumes "fetch rt (request_url c path queryParams) (fetchOptions rt c method' body) =
             Rejected (JsError name' message')"
    and "name' \<noteq> ''AbortError''"
  shows "request rt c method' path body queryParams =
           Inr \<lparr> success = False, data = None,
                 error = Some \<lparr> err_type = JStr ''connection_error'',
                                err_reason = JStr message', err_status = None \<rparr> \<rparr>"
  using request_Rejected [OF assms(1)] assms(2)
  by (simp add: request_catch_def failure_def)

text \<open>The network error of the test suite.\<close>

theorem connection_error_outcome_witness:
  "request (sample_runtime (Rejected (JsError ''Error'' ''Network error'')))
     sample_client ''GET'' ''/'' None None =
     Inr \<lparr> success = False, data = None,
           error = Some \<lparr> err_type = JStr ''connection_error'',
                          err_reason = JStr ''Network error'', err_status = None \<rparr> \<rparr>"
proof -
  let ?rt = "sample_runtime (Rejected (JsError ''Error'' ''Network error''))"
  have 1: "fetch ?rt (request_url sample_client ''/'' None)
             (fetchOptions ?rt sample_client ''GET'' None) =
           Rejected (JsError ''Error'' ''Network error'')"
    by (rule sample_fetch)
  have 2: "''Error'' \<noteq> ''AbortError''"
    by simp
  show ?thesis
    using connection_error_outcome [OF 1 2] by simp
qed




text \<open>
  C8. With query parameters that have at least one key, the request URL is the base
  endpoint, the path, \<open>?\<close> and a query string that the standard parser reads back as
  exactly the list of the pairs, each once, in the iteration order, with every value
  stringified: a string is its own text, a boolean is \<open>true\<close> or \<open>false\<close>, a safe
  integer is its decimal after a minus sign if it is below zero, and any other number is
  the text the platform prints for it. All characters of the query string are letters,
  digits, \<open>* - . _\<close>, \<open>%\<close>, \<open>+\<close>, \<open>=\<close> and \<open>&\<close>. With no query parameters, or
  none with a key, the URL is the base endpoint and the path. This URL is what the one
  call of \<open>fetch\<close> receives.
\<close>

theorem query_string:
  "(queryParams = Some entries \<and> entries \<noteq> [] \<longrightarrow>
      (\<exists>q. request_url c path queryParams = baseUrl c @ path @ ''?'' @ q \<and>
           urlencoded_parse q =
             map (\<lambda>(key, v).
                    (key,
                     case v of
                       QStr s \<Rightarrow> s
                     | QBool b \<Rightarrow> if b then ''true'' else ''false''
                     | QNum (Integer neg m) \<Rightarrow>
                         (if neg \<and> m \<noteq> 0 then ''-'' else []) @ string_of_nat (unat m)
                     | QNum (Other t) \<Rightarrow> t))
               entries \<and>
           (\<forall>x \<in> set q. urlencoded_safe x \<or> x = CHR ''%'' \<or> x = CHR ''+'' \<or>
                         x = CHR ''='' \<or> x = CHR ''&'')))
   \<and> decimal_of n (string_of_nat n)
   \<and> (queryParams = None \<or> queryParams = Some [] \<longrightarrow>
        request_url c path queryParams = baseUrl c @ path)
   \<and> (JSON_parse rt' = JSON_parse rt \<and> JSON_stringify rt' = JSON_stringify rt \<and>
        fetch rt' (request_url c path queryParams) (fetchOptions rt c method' body) =
        fetch rt (request_url c path queryParams) (fetchOptions rt c method' body) \<longrightarrow>
        request rt' c method' path body queryParams = request rt c method' path body queryParams)"
proof (intro conjI impI)
  assume a: "queryParams = Some entries \<and> entries \<noteq> []"
  let ?text = "\<lambda>v. case v of
                       QStr s \<Rightarrow> s
                     | QBool b \<Rightarrow> if b then ''true'' else ''false''
                     | QNum (Integer neg m) \<Rightarrow>
                         (if neg \<and> m \<noteq> 0 then ''-'' else []) @ string_of_nat (unat m)
                     | QNum (Other t) \<Rightarrow> t"
  have t: "String_of v = ?text v" for v
    by (cases v) (simp_all split: number.splits)
  let ?q = "URLSearchParams_toString (map (\<lambda>(key, v). (key, String_of v)) entries)"
  have "request_url c path queryParams = baseUrl c @ path @ ''?'' @ ?q"
    using a by (simp add: request_url_def)
  moreover have "urlencoded_parse ?q = map (\<lambda>(key, v). (key, ?text v)) entries"
    by (simp add: urlencoded_parse_toString t)
  moreover have "\<forall>x \<in> set ?q. urlencoded_safe x \<or> x = CHR ''%'' \<or> x = CHR ''+'' \<or>
                         x = CHR ''='' \<or> x = CHR ''&''"
    using toString_alphabet by blast
  ultimately show "\<exists>q. request_url c path queryParams = baseUrl c @ path @ ''?'' @ q \<and>
           urlencoded_parse q = map (\<lambda>(key, v). (key, ?text v)) entries \<and>
           (\<forall>x \<in> set q. urlencoded_safe x \<or> x = CHR ''%'' \<or> x = CHR ''+'' \<or>
                         x = CHR ''='' \<or> x = CHR ''&'')"
    by blast
next
  show "decimal_of n (string_of_nat n)"
    by (rule decimal_of_string_of_nat)
next
  assume "queryParams = None \<or> queryParams = Some []"
  then show "request_url c path queryParams = baseUrl c @ path"
    by (auto simp add: request_url_def)
next
  assume "JSON_parse rt' = JSON_parse rt \<and> JSON_stringify rt' = JSON_stringify rt \<and>
        fetch rt' (request_url c path queryParams) (fetchOptions rt c method' body) =
        fetch rt (request_url c path queryParams) (fetchOptions rt c method' body)"
  then show "request rt' c method' path body queryParams =
               request rt c method' path body queryParams"
    using request_single_exchange by blast
qed

text \<open>The listing of indices of the test suite, \<open>format=json&h=index%2Chealth\<close>, and
  the parameters of an allocation explanation, with a string, a safe integer, a boolean, a
  negative integer and a number with a fraction.\<close>

theorem query_string_witness:
  "request_url sample_client ''/_cat/indices''
     (Some [(''format'', QStr ''json''), (''h'', QStr ''index,health'')]) =
     ''https://test.elastic.cloud/_cat/indices?format=json&h=index%2Chealth''
   \<and> urlencoded_parse ''format=json&h=index%2Chealth'' =
       [(''format'', ''json''), (''h'', ''index,health'')]
   \<and> request_url sample_client ''/_cluster/allocation/explain'' (Some explain_params) =
       ''https://test.elastic.cloud/_cluster/allocation/explain?index=my+logs&shard=12&primary=true&offset=-7&boost=1.5''
   \<and> urlencoded_parse ''index=my+logs&shard=12&primary=true&offset=-7&boost=1.5'' =
       [(''index'', ''my logs''), (''shard'', ''12''), (''primary'', ''true''),
        (''offset'', ''-7''), (''boost'', ''1.5'')]
   \<and> decimal_of 12 ''12''
   \<and> request_url sample_client ''/_cat/indices'' None =
       ''https://test.elastic.cloud/_cat/indices''"
proof -
  let ?qp = "Some [(''format'', QStr ''json''), (''h'', QStr ''index,health'')]"
  have b: "baseUrl sample_client = ''https://test.elastic.cloud''"
    by (simp add: sample_client_def)
  have a: "?qp = Some [(''format'', QStr ''json''), (''h'', QStr ''index,health'')] \<and>
           [(''format'', QStr ''json''), (''h'', QStr ''index,health'')] \<noteq> []"
    by simp
  note qs = query_string [of ?qp "[(''format'', QStr ''json''), (''h'', QStr ''index,health'')]"
      sample_client "''/_cat/indices''", THEN conjunct1, rule_format, OF a]
  obtain q where q: "request_url sample_client ''/_cat/indices'' ?qp =
        baseUrl sample_client @ ''/_cat/indices'' @ ''?'' @ q"
      "urlencoded_parse q = [(''format'', ''json''), (''h'', ''index,health'')]"
    using qs by auto
  have "q = ''format=json&h=index%2Chealth''"
    using q(1) cat_indices_url b by simp
  with q(2) have 2: "urlencoded_parse ''format=json&h=index%2Chealth'' =
       [(''format'', ''json''), (''h'', ''index,health'')]"
    by simp
  have e: "Some explain_params = Some explain_params \<and> explain_params \<noteq> []"
    by (simp add: explain_params_def)
  note es = query_string [of "Some explain_params" explain_params sample_client
      "''/_cluster/allocation/explain''", THEN conjunct1, rule_format, OF e]
  have n12: "string_of_nat 12 = ''12''" and n7: "string_of_nat 7 = ''7''"
    by (simp_all add: string_of_nat_small string_of_nat_big digit_char_def)
  have u: "unat (12 :: 53 word) = 12" "unat (7 :: 53 word) = 7"
    by simp_all
  obtain r where r: "request_url sample_client ''/_cluster/allocation/explain''
        (Some explain_params) = baseUrl sample_client @ ''/_cluster/allocation/explain'' @ ''?'' @ r"
      "urlencoded_parse r =
         [(''index'', ''my logs''), (''shard'', ''12''), (''primary'', ''true''),
          (''offset'', ''-7''), (''boost'', ''1.5'')]"
    using es by (auto simp add: explain_params_def n12 n7 u)
  have "r = ''index=my+logs&shard=12&primary=true&offset=-7&boost=1.5''"
    using r(1) explain_url b by simp
  with r have 4: "urlencoded_parse ''index=my+logs&shard=12&primary=true&offset=-7&boost=1.5'' =
       [(''index'', ''my logs''), (''shard'', ''12''), (''primary'', ''true''),
        (''offset'', ''-7''), (''boost'', ''1.5'')]"
    by simp
  have 5: "decimal_of 12 ''12''"
    using query_string [of None _ sample_client "''/''" 12, THEN conjunct2, THEN conjunct1] n12
    by simp
  have 6: "request_url sample_client ''/_cat/indices'' None =
             ''https://test.elastic.cloud/_cat/indices''"
    using query_string [of None _ sample_client "''/_cat/indices''"] b by simp
  from cat_indices_url 2 explain_url 4 5 6 show ?thesis
    by blast
qed

text \<open>
  C9. Every outcome that \<open>request\<close>, \<open>get\<close>, \<open>post\<close>, \<open>put\<close> and \<open>delete\<close> return
  (and they always return one) has exactly one variant populated: a Success has the data
  and no error descriptor, a Failure has the error descriptor and no data. A status is
  present only on a Failure made from a response whose status is outside the success
  range, and it is the status of that response; the Failures made by the \<open>catch\<close>
  clause (\<open>timeout\<close>, \<open>connection_error\<close>, \<open>unknown_error\<close>) have none.
\<close>

theorem outcome_invariant:
  "(\<exists>r. request rt c method' path body queryParams = Inr r \<and> exactly_one_variant r \<and>
        (\<forall>n. status_of r = Some n \<longrightarrow>
           (\<exists>response.
              fetch rt (request_url c path queryParams) (fetchOptions rt c method' body) =
                Resolved response \<and>
              \<not> ok response \<and> n = status response)))
   \<and> (\<exists>r. get rt c path queryParams = Inr r \<and> exactly_one_variant r \<and>
        (\<forall>n. status_of r = Some n \<longrightarrow>
           (\<exists>response.
              fetch rt (request_url c path queryParams) (fetchOptions rt c ''GET'' None) =
                Resolved response \<and>
              \<not> ok response \<and> n = status response)))
   \<and> (\<exists>r. post rt c path body queryParams = Inr r \<and> exactly_one_variant r \<and>
        (\<forall>n. status_of r = Some n \<longrightarrow>
           (\<exists>response.
              fetch rt (request_url c path queryParams) (fetchOptions rt c ''POST'' body) =
                Resolved response \<and>
              \<not> ok response \<and> n = status response)))
   \<and> (\<exists>r. put rt c path body queryParams = Inr r \<and> exactly_one_variant r \<and>
        (\<forall>n. status_of r = Some n \<longrightarrow>
           (\<exists>response.
              fetch rt (request_url c path queryParams) (fetchOptions rt c ''PUT'' body) =
                Resolved response \<and>
              \<not> ok response \<and> n = status response)))
   \<and> (\<exists>r. delete rt c path body queryParams = Inr r \<and> exactly_one_variant r \<and>
        (\<forall>n. status_of r = Some n \<longrightarrow>
           (\<exists>response.
              fetch rt (request_url c path queryParams) (fetchOptions rt c ''DELETE'' body) =
                Resolved response \<and>
              \<not> ok response \<and> n = status response)))
   \<and> (\<forall>r. request_catch c e = Inr r \<longrightarrow> status_of r = None)"
proof -
  have "\<forall>r. request_catch c e = Inr r \<longrightarrow> status_of r = None"
    using request_catch_returns [of c e] by (auto simp add: status_of_def)
  then show ?thesis
    unfolding get_def post_def put_def delete_def
    using request_shape_status [of rt c method' path body queryParams]
      request_shape_status [of rt c "''GET''" path None queryParams]
      request_shape_status [of rt c "''POST''" path body queryParams]
      request_shape_status [of rt c "''PUT''" path body queryParams]
      request_shape_status [of rt c "''DELETE''" path body queryParams]
    by (intro conjI) assumption+
qed

text \<open>The \<open>404\<close> of the test suite, read with \<open>get\<close>.\<close>

theorem outcome_invariant_witness:
  "get (sample_runtime (Resolved not_found)) sample_client ''/nonexistent'' None =
     Inr not_found_outcome
   \<and> exactly_one_variant not_found_outcome
   \<and> status_of not_found_outcome = Some 404
   \<and> fetch (sample_runtime (Resolved not_found)) (request_url sample_client ''/nonexistent'' None)
        (fetchOptions (sample_runtime (Resolved not_found)) sample_client ''GET'' None) =
      Resolved not_found
   \<and> \<not> ok not_found \<and> status not_found = 404"
proof -
  have s: "status_of not_found_outcome = Some 404"
    by (simp add: status_of_def not_found_outcome_def)
  have f: "fetch (sample_runtime (Resolved not_found))
             (request_url sample_client ''/nonexistent'' None)
             (fetchOptions (sample_runtime (Resolved not_found)) sample_client ''GET'' None) =
           Resolved not_found"
    by (rule sample_fetch)
  have n: "\<not> ok not_found" "status not_found = 404"
    by (simp_all add: not_found_def)
  have "\<exists>r. get (sample_runtime (Resolved not_found)) sample_client ''/nonexistent'' None = Inr r
          \<and> exactly_one_variant r"
    using outcome_invariant [of "sample_runtime (Resolved not_found)" sample_client "''GET''"
      "''/nonexistent''" None None NonError]
    by blast
  then have e: "exactly_one_variant not_found_outcome"
    by (simp add: get_not_found)
  from get_not_found e s f n show ?thesis
    by blast
qed

text \<open>
  C10 (as amended). When the base endpoint of the configuration ends in exactly one
  slash, construction strips it: the base URL of the client is the endpoint without
  that slash, the URL of a read of the root path is the endpoint as configured, it does
  not end in two slashes, and it is the URL that the read hands to \<open>fetch\<close>.
\<close>

theorem trailing_slash_stripped:
  assumes "new_ElasticClient config = Inr c"
    and "elasticUrl config = b @ ''/''"
    and "b = [] \<or> last b \<noteq> CHR ''/''"
  shows "baseUrl c = b
         \<and> request_url c ''/'' None = b @ ''/''
         \<and> (\<forall>u. request_url c ''/'' None \<noteq> u @ ''//'')
         \<and> (JSON_parse rt' = JSON_parse rt \<and> JSON_stringify rt' = JSON_stringify rt \<and>
              fetch rt' (b @ ''/'') (fetchOptions rt c ''GET'' None) =
              fetch rt (b @ ''/'') (fetchOptions rt c ''GET'' None) \<longrightarrow>
              get rt' c ''/'' None = get rt c ''/'' None)"
proof -
  have b: "baseUrl c = b"
    using new_ElasticClient_baseUrl [OF assms(1)] assms(2)
    by (simp add: strip_trailing_slash_snoc)
  then have u: "request_url c ''/'' None = b @ ''/''"
    by (simp add: request_url_def)
  have "b @ ''/'' \<noteq> u @ ''//''" for u
  proof
    assume "b @ ''/'' = u @ ''//''"
    then have "b @ ''/'' = (u @ ''/'') @ ''/''" by simp
    then have "b = u @ ''/''" by (simp only: append_same_eq)
    with assms(3) show False by simp
  qed
  moreover have "get rt' c ''/'' None = get rt c ''/'' None"
    if "JSON_parse rt' = JSON_parse rt \<and> JSON_stringify rt' = JSON_stringify rt \<and>
        fetch rt' (b @ ''/'') (fetchOptions rt c ''GET'' None) =
        fetch rt (b @ ''/'') (fetchOptions rt c ''GET'' None)"
    unfolding get_def
    using that request_single_exchange [of rt' rt c "''/''" None "''GET''" None] u
    by simp
  ultimately show ?thesis
    using b u by simp
qed

text \<open>The configuration of the test suite whose endpoint ends in a slash.\<close>

theorem trailing_slash_stripped_witness:
  "new_ElasticClient slash_config = Inr sample_client
   \<and> elasticUrl slash_config = ''https://test.elastic.cloud/''
   \<and> baseUrl sample_client = ''https://test.elastic.cloud''
   \<and> request_url sample_client ''/'' None = ''https://test.elastic.cloud/''"
proof -
  have 1: "elasticUrl slash_config = ''https://test.elastic.cloud'' @ ''/''"
    by (simp add: slash_config_def)
  have 2: "''https://test.elastic.cloud'' = [] \<or> last ''https://test.elastic.cloud'' \<noteq> CHR ''/''"
    by simp
  show ?thesis
    using trailing_slash_stripped [OF new_slash_client 1 2] new_slash_client 1
    by simp
qed

text \<open>C10 as stated fails: of an endpoint that ends in two slashes only one is stripped.
  The base URL of the client still ends in a slash, and the read of the root path goes to
  a URL that ends in two.\<close>

theorem two_trailing_slashes_counterexample:
  "new_ElasticClient two_slashes_config = Inr two_slashes_client
   \<and> last (elasticUrl two_slashes_config) = CHR ''/''
   \<and> baseUrl two_slashes_client = ''https://test.elastic.cloud/''
   \<and> request_url two_slashes_client ''/'' None = ''https://test.elastic.cloud//''"
  by (simp add: new_ElasticClient_def authorization_def truthy_string_def interpolate_def
      two_slashes_config_def two_slashes_client_def strip_trailing_slash_def request_url_def)

end
